theory Spec2Isabelle
  imports Main "HOL-Library.Word"
begin

section \<open>Data model of \<^verbatim>\<open>eth/catalyst/l2_api.go\<close>\<close>

text \<open>
  The file under verification is the block coordinator: \<^verbatim>\<open>AssembleL2Block\<close>,
  \<^verbatim>\<open>ValidateL2Block\<close>, \<^verbatim>\<open>NewL2Block\<close>, and their helpers \<^verbatim>\<open>paramsToBlock\<close> and
  \<^verbatim>\<open>VerifyBlock\<close>. Everything else it calls (chain, miner, consensus engine, body
  validator, transaction codec, header hash) lives in other packages; those collaborators
  are parameters of the model, collected in the record \<open>backend\<close> below.
\<close>

type_synonym Hash = "256 word"      \<comment> \<open>\<^verbatim>\<open>common.Hash\<close>, 32 bytes\<close>
type_synonym Address = "160 word"   \<comment> \<open>\<^verbatim>\<open>common.Address\<close>, 20 bytes\<close>
type_synonym uint64 = "64 word"
type_synonym bytes = "8 word list"  \<comment> \<open>\<^verbatim>\<open>[]byte\<close>; the nil slice and the empty slice are \<open>[]\<close>\<close>
type_synonym Bloom = "2048 word"    \<comment> \<open>\<^verbatim>\<open>types.Bloom\<close>, 256 bytes\<close>
type_synonym Time = int             \<comment> \<open>a reading of \<^verbatim>\<open>time.Now()\<close>\<close>
type_synonym Duration = int         \<comment> \<open>\<^verbatim>\<open>time.Duration\<close>\<close>
type_synonym BLSData = bytes
  \<comment> \<open>\<^verbatim>\<open>types.BLSData\<close> is declared outside this file; the file only passes it through and
      uses its zero value, so it is kept as its bytes, the zero value being \<open>[]\<close>\<close>

text \<open>
  Go \<^verbatim>\<open>error\<close> values. The three messages built with \<^verbatim>\<open>fmt.Errorf\<close> and the one built with
  \<^verbatim>\<open>errors.New\<close> in this file are constructors that carry the values the format string
  prints, in the order it prints them; errors handed up from collaborators are opaque.
\<close>

datatype error =
    ErrDiscontinuous uint64 uint64
      \<comment> \<open>"cannot assemble block with discontinuous block number %d, expected number is %d"\<close>
  | ErrWrongParent Hash Hash
      \<comment> \<open>"wrong parent hash: %s, expected parent hash is %s"\<close>
  | ErrTransactionNotValid nat error
      \<comment> \<open>"transaction %d is not valid: %v"\<close>
  | ErrInvalidTxCount
      \<comment> \<open>"invalid tx count"\<close>
  | ErrCollaborator string
      \<comment> \<open>an error returned by a collaborator\<close>

text \<open>\<^verbatim>\<open>types.Header\<close>: the fields this file writes, and those of a go-ethereum header that
  the engine's \<^verbatim>\<open>Prepare\<close> hook may fill.\<close>

record Header =
  ParentHash :: Hash
  UncleHash :: Hash
  Coinbase :: Address
  Root :: Hash
  TxHash :: Hash
  ReceiptHash :: Hash
  Bloom :: Bloom
  Difficulty :: "int option"
  Number :: int
  GasLimit :: uint64
  GasUsed :: uint64
  Time :: uint64
  Extra :: bytes
  MixDigest :: Hash
  Nonce :: uint64
  BaseFee :: "int option"
  BLSData :: BLSData

text \<open>\<^verbatim>\<open>types.Block\<close>: a header and the decoded transactions (this file never supplies
  uncles).\<close>

record 'tx Block =
  header :: Header
  transactions :: "'tx list"

text \<open>\<^verbatim>\<open>AssembleL2BlockParams\<close>, the request of the Assembler.\<close>

record AssembleL2BlockParams =
  Number :: uint64
  Transactions :: "bytes list"

text \<open>\<^verbatim>\<open>ExecutableL2Data\<close>, the candidate block descriptor.\<close>

record ExecutableL2Data =
  ParentHash :: Hash
  Number :: uint64
  Miner :: Address
  Timestamp :: uint64
  GasLimit :: uint64
  BaseFee :: "int option"
  Extra :: bytes
  Transactions :: "bytes list"
  StateRoot :: Hash
  GasUsed :: uint64
  ReceiptRoot :: Hash
  LogsBloom :: bytes

record GenericResponse =
  Success :: bool

text \<open>\<^verbatim>\<open>executionResult\<close>, the value type of the verified-result cache.\<close>

record ('tx, 'sdb, 'rcpt) executionResult =
  block :: "'tx Block"
  state :: 'sdb
  receipts :: 'rcpt
  procTime :: Duration

text \<open>
  The collaborators, as the file calls them. \<open>'chain\<close> is the state of
  \<^verbatim>\<open>api.eth.BlockChain()\<close>, \<open>'tx\<close> a decoded \<^verbatim>\<open>types.Transaction\<close>, \<open>'sdb\<close> a
  \<^verbatim>\<open>state.StateDB\<close>, \<open>'rcpt\<close> a \<^verbatim>\<open>types.Receipts\<close>. A Go function returning
  \<^verbatim>\<open>(v, error)\<close> is a sum; one returning only \<^verbatim>\<open>error\<close> is an \<open>error option\<close>.
  \<^verbatim>\<open>Prepare\<close> updates the header in place and its error result is dropped at the call
  site (line 210), so it is a function from header to header.
  \<^verbatim>\<open>WriteStateAndSetHead\<close> is the only call that changes the chain: it returns its error
  and the chain it leaves behind. The collaborators are total functions: a panic inside
  one of them (\<^verbatim>\<open>types.BytesToBloom\<close> on more than 256 bytes, say) is not part of the
  model.
\<close>

record ('tx, 'sdb, 'rcpt, 'chain) backend =
  CurrentHeader :: "'chain \<Rightarrow> Header"
  CurrentBlock :: "'chain \<Rightarrow> 'tx Block"
  HeaderHash :: "Header \<Rightarrow> Hash"
  UnmarshalBinary :: "bytes \<Rightarrow> error + 'tx"
  decodeTransactions :: "bytes list \<Rightarrow> error + 'tx list"
  encodeTransactions :: "'tx list \<Rightarrow> bytes list"
  DeriveSha :: "'tx list \<Rightarrow> Hash"
  EmptyRootHash :: Hash
  BytesToBloom :: "bytes \<Rightarrow> Bloom"
  BloomBytes :: "Bloom \<Rightarrow> bytes"
  GetSealingBlockAndState ::
    "'chain \<Rightarrow> Hash \<Rightarrow> Time \<Rightarrow> 'tx list \<Rightarrow> error + ('tx Block \<times> 'sdb \<times> 'rcpt)"
  Prepare :: "'chain \<Rightarrow> Header \<Rightarrow> Header"
  VerifyHeader :: "'chain \<Rightarrow> Header \<Rightarrow> error option"
  IsValidTxCount :: "'chain \<Rightarrow> nat \<Rightarrow> bool"
  ValidateBody :: "'chain \<Rightarrow> 'tx Block \<Rightarrow> error option"
  ProcessBlock :: "'chain \<Rightarrow> 'tx Block \<Rightarrow> Header \<Rightarrow> error + ('sdb \<times> 'rcpt \<times> Duration)"
  WriteStateAndSetHead ::
    "'chain \<Rightarrow> 'tx Block \<Rightarrow> 'rcpt \<Rightarrow> 'sdb \<Rightarrow> Duration \<Rightarrow> error option \<times> 'chain"

text \<open>
  The calls whose occurrence the specification talks about, each with the hash of the
  block (for the miner, of the parent) it was made for. \<open>calls\<close> in the state below
  records them in order; it is the call counter of a test double.
\<close>

datatype call =
    CallGetSealingBlockAndState Hash
  | CallVerifyHeader Hash
  | CallValidateBody Hash
  | CallProcessBlock Hash
  | CallWriteStateAndSetHead Hash

text \<open>\<^verbatim>\<open>l2ConsensusAPI\<close>: the backend's chain and the verified-result cache.\<close>

record ('tx, 'sdb, 'rcpt, 'chain) l2ConsensusAPI =
  eth :: 'chain
  verified :: "Hash \<rightharpoonup> ('tx, 'sdb, 'rcpt) executionResult"
  calls :: "call list"

text \<open>The executor-call counter: how many times \<^verbatim>\<open>ProcessBlock\<close> was invoked.\<close>

fun executions :: "call list \<Rightarrow> nat" where
  "executions [] = 0"
| "executions (CallProcessBlock h # cs) = Suc (executions cs)"
| "executions (c # cs) = executions cs"

section \<open>Operations\<close>

text \<open>\<^verbatim>\<open>(*big.Int).Uint64\<close>: the low 64 bits of the magnitude.\<close>

definition Uint64 :: "int \<Rightarrow> uint64" where
  "Uint64 n = word_of_int \<bar>n\<bar>"

definition NumberU64 :: "'tx Block \<Rightarrow> uint64" where
  "NumberU64 b = Uint64 (Header.Number (header b))"

text \<open>\<^verbatim>\<open>block.Hash()\<close> is the hash of the header.\<close>

definition BlockHash :: "('tx, 'sdb, 'rcpt, 'chain) backend \<Rightarrow> 'tx Block \<Rightarrow> Hash" where
  "BlockHash be b = HeaderHash be (header b)"

text \<open>\<^verbatim>\<open>newL2ConsensusAPI\<close>: an empty cache.\<close>

definition newL2ConsensusAPI :: "'chain \<Rightarrow> ('tx, 'sdb, 'rcpt, 'chain) l2ConsensusAPI" where
  "newL2ConsensusAPI c = \<lparr>eth = c, verified = Map.empty, calls = []\<rparr>"

text \<open>The decoding loop of \<^verbatim>\<open>AssembleL2Block\<close> (lines 64-71): \<open>i\<close> is the index of the
  head of the remaining list, \<open>acc\<close> the transactions appended so far.\<close>

fun decodeLoop ::
  "('tx, 'sdb, 'rcpt, 'chain) backend \<Rightarrow> nat \<Rightarrow> bytes list \<Rightarrow> 'tx list \<Rightarrow> error + 'tx list"
where
  "decodeLoop be i [] acc = Inr acc"
| "decodeLoop be i (otx # rest) acc =
     (case UnmarshalBinary be otx of
        Inl err \<Rightarrow> Inl (ErrTransactionNotValid i err)
      | Inr tx \<Rightarrow> decodeLoop be (Suc i) rest (acc @ [tx]))"

text \<open>\<^verbatim>\<open>AssembleL2Block\<close> (lines 56-103). \<open>now\<close> is the reading of \<^verbatim>\<open>time.Now()\<close> handed to
  the miner and \<open>elapsed\<close> the value of \<^verbatim>\<open>time.Since(start)\<close>. A nil descriptor with a nil
  error is \<open>Inr None\<close>.\<close>

definition AssembleL2Block ::
  "('tx, 'sdb, 'rcpt, 'chain) backend \<Rightarrow> Time \<Rightarrow> Duration \<Rightarrow> AssembleL2BlockParams \<Rightarrow>
   ('tx, 'sdb, 'rcpt, 'chain) l2ConsensusAPI \<Rightarrow>
   (error + ExecutableL2Data option) \<times> ('tx, 'sdb, 'rcpt, 'chain) l2ConsensusAPI"
where
  "AssembleL2Block be now elapsed params api =
    (let parent = CurrentHeader be (eth api);
         expectedBlockNumber = Uint64 (Header.Number parent) + 1
     in if AssembleL2BlockParams.Number params \<noteq> expectedBlockNumber
        then (Inl (ErrDiscontinuous (AssembleL2BlockParams.Number params) expectedBlockNumber), api)
        else
          (case decodeLoop be 0 (AssembleL2BlockParams.Transactions params) [] of
             Inl err \<Rightarrow> (Inl err, api)
           | Inr txs \<Rightarrow>
              (let api1 = api\<lparr>calls := calls api @
                            [CallGetSealingBlockAndState (HeaderHash be parent)]\<rparr>
               in case GetSealingBlockAndState be (eth api) (HeaderHash be parent) now txs of
                    Inl err \<Rightarrow> (Inl err, api1)
                  | Inr (blk, st, rcpts) \<Rightarrow>
                      if Header.TxHash (header blk) = EmptyRootHash be
                      then (Inr None, api1)
                      else
                        (Inr (Some
                           \<lparr>ExecutableL2Data.ParentHash = Header.ParentHash (header blk),
                            ExecutableL2Data.Number = NumberU64 blk,
                            Miner = Header.Coinbase (header blk),
                            Timestamp = Header.Time (header blk),
                            ExecutableL2Data.GasLimit = Header.GasLimit (header blk),
                            ExecutableL2Data.BaseFee = Header.BaseFee (header blk),
                            ExecutableL2Data.Extra = [],
                            ExecutableL2Data.Transactions =
                              encodeTransactions be (transactions blk),
                            StateRoot = Header.Root (header blk),
                            ExecutableL2Data.GasUsed = Header.GasUsed (header blk),
                            ReceiptRoot = Header.ReceiptHash (header blk),
                            LogsBloom = BloomBytes be (Header.Bloom (header blk))\<rparr>),
                         api1\<lparr>verified := (verified api1)(BlockHash be blk \<mapsto>
                            \<lparr>block = blk, state = st, receipts = rcpts,
                             procTime = elapsed\<rparr>)\<rparr>))))"

text \<open>\<^verbatim>\<open>paramsToBlock\<close> (lines 198-221). \<^verbatim>\<open>big.NewInt(int64(params.Number))\<close> reads the
  unsigned number as a signed 64-bit value. The fields the header literal leaves out
  have Go's zero values.\<close>

definition paramsToBlock ::
  "('tx, 'sdb, 'rcpt, 'chain) backend \<Rightarrow> 'chain \<Rightarrow> ExecutableL2Data \<Rightarrow> BLSData \<Rightarrow>
   error + 'tx Block"
where
  "paramsToBlock be chain params blsData =
    (let header0 =
           \<lparr>Header.ParentHash = ExecutableL2Data.ParentHash params,
            UncleHash = 0,
            Coinbase = Miner params,
            Root = 0,
            TxHash = 0,
            ReceiptHash = 0,
            Bloom = 0,
            Difficulty = None,
            Header.Number = sint (ExecutableL2Data.Number params),
            Header.GasLimit = ExecutableL2Data.GasLimit params,
            Header.GasUsed = ExecutableL2Data.GasUsed params,
            Time = Timestamp params,
            Header.Extra = ExecutableL2Data.Extra params,
            MixDigest = 0,
            Nonce = 0,
            Header.BaseFee = ExecutableL2Data.BaseFee params,
            BLSData = blsData\<rparr>;
         header1 = Prepare be chain header0
     in case decodeTransactions be (ExecutableL2Data.Transactions params) of
          Inl err \<Rightarrow> Inl err
        | Inr txs \<Rightarrow>
            Inr \<lparr>header = header1
                   \<lparr>TxHash := DeriveSha be txs,
                    ReceiptHash := ReceiptRoot params,
                    Root := StateRoot params,
                    Bloom := BytesToBloom be (LogsBloom params)\<rparr>,
                 transactions = txs\<rparr>)"

text \<open>\<^verbatim>\<open>VerifyBlock\<close> (lines 223-232).\<close>

definition VerifyBlock ::
  "('tx, 'sdb, 'rcpt, 'chain) backend \<Rightarrow> 'tx Block \<Rightarrow>
   ('tx, 'sdb, 'rcpt, 'chain) l2ConsensusAPI \<Rightarrow>
   error option \<times> ('tx, 'sdb, 'rcpt, 'chain) l2ConsensusAPI"
where
  "VerifyBlock be blk api =
    (let api1 = api\<lparr>calls := calls api @ [CallVerifyHeader (BlockHash be blk)]\<rparr>
     in case VerifyHeader be (eth api) (header blk) of
          Some err \<Rightarrow> (Some err, api1)
        | None \<Rightarrow>
            if \<not> IsValidTxCount be (eth api) (length (transactions blk))
            then (Some ErrInvalidTxCount, api1)
            else (None, api1))"

text \<open>\<^verbatim>\<open>ValidateL2Block\<close> (lines 105-158); it materializes the block with the zero
  \<^verbatim>\<open>types.BLSData{}\<close>.\<close>

definition ValidateL2Block ::
  "('tx, 'sdb, 'rcpt, 'chain) backend \<Rightarrow> ExecutableL2Data \<Rightarrow>
   ('tx, 'sdb, 'rcpt, 'chain) l2ConsensusAPI \<Rightarrow>
   (error + GenericResponse) \<times> ('tx, 'sdb, 'rcpt, 'chain) l2ConsensusAPI"
where
  "ValidateL2Block be params api =
    (let parent = CurrentBlock be (eth api);
         expectedBlockNumber = NumberU64 parent + 1
     in if ExecutableL2Data.Number params \<noteq> expectedBlockNumber
        then (Inl (ErrDiscontinuous (ExecutableL2Data.Number params) expectedBlockNumber), api)
        else if ExecutableL2Data.ParentHash params \<noteq> BlockHash be parent
        then (Inl (ErrWrongParent (ExecutableL2Data.ParentHash params) (BlockHash be parent)),
              api)
        else
          (case paramsToBlock be (eth api) params [] of
             Inl err \<Rightarrow> (Inl err, api)
           | Inr blk \<Rightarrow>
              (case verified api (BlockHash be blk) of
                 Some _ \<Rightarrow> (Inr \<lparr>Success = True\<rparr>, api)
               | None \<Rightarrow>
                  (case VerifyBlock be blk api of
                     (Some err, api1) \<Rightarrow> (Inr \<lparr>Success = False\<rparr>, api1)
                   | (None, api1) \<Rightarrow>
                      (let api2 = api1\<lparr>calls := calls api1 @
                                    [CallValidateBody (BlockHash be blk)]\<rparr>
                       in case ValidateBody be (eth api) blk of
                            Some err \<Rightarrow> (Inr \<lparr>Success = False\<rparr>, api2)
                          | None \<Rightarrow>
                             (let api3 = api2\<lparr>calls := calls api2 @
                                           [CallProcessBlock (BlockHash be blk)]\<rparr>
                              in case ProcessBlock be (eth api) blk (header parent) of
                                   Inl err \<Rightarrow> (Inr \<lparr>Success = False\<rparr>, api3)
                                 | Inr (stateDB, rcpts, pt) \<Rightarrow>
                                     (Inr \<lparr>Success = True\<rparr>,
                                      api3\<lparr>verified := (verified api3)(BlockHash be blk \<mapsto>
                                         \<lparr>block = blk, state = stateDB, receipts = rcpts,
                                          procTime = pt\<rparr>)\<rparr>)))))))"

text \<open>\<^verbatim>\<open>NewL2Block\<close> (lines 160-196); a nil error is \<open>None\<close>.\<close>

definition NewL2Block ::
  "('tx, 'sdb, 'rcpt, 'chain) backend \<Rightarrow> ExecutableL2Data \<Rightarrow> BLSData \<Rightarrow>
   ('tx, 'sdb, 'rcpt, 'chain) l2ConsensusAPI \<Rightarrow>
   error option \<times> ('tx, 'sdb, 'rcpt, 'chain) l2ConsensusAPI"
where
  "NewL2Block be params bls api =
    (let parent = CurrentBlock be (eth api);
         expectedBlockNumber = NumberU64 parent + 1
     in if ExecutableL2Data.Number params \<noteq> expectedBlockNumber
        then (Some (ErrDiscontinuous (ExecutableL2Data.Number params) expectedBlockNumber), api)
        else if ExecutableL2Data.ParentHash params \<noteq> BlockHash be parent
        then (Some (ErrWrongParent (ExecutableL2Data.ParentHash params) (BlockHash be parent)),
              api)
        else
          (case paramsToBlock be (eth api) params bls of
             Inl err \<Rightarrow> (Some err, api)
           | Inr blk \<Rightarrow>
              (case verified api (BlockHash be blk) of
                 Some bas \<Rightarrow>
                  (case WriteStateAndSetHead be (eth api) blk
                          (receipts bas) (state bas) (procTime bas) of
                     (err, chain') \<Rightarrow>
                      (let api1 = api\<lparr>eth := chain', calls := calls api @
                                    [CallWriteStateAndSetHead (BlockHash be blk)]\<rparr>
                       in if err = None
                          then (err, api1\<lparr>verified := Map.empty\<rparr>)
                          else (err, api1)))
               | None \<Rightarrow>
                  (case VerifyBlock be blk api of
                     (Some err, api1) \<Rightarrow> (Some err, api1)
                   | (None, api1) \<Rightarrow>
                      (let api2 = api1\<lparr>calls := calls api1 @
                                    [CallProcessBlock (BlockHash be blk)]\<rparr>
                       in case ProcessBlock be (eth api) blk (header parent) of
                            Inl err \<Rightarrow> (Some err, api2)
                          | Inr (stateDB, rcpts, pt) \<Rightarrow>
                             (case WriteStateAndSetHead be (eth api) blk rcpts stateDB pt of
                                (err, chain') \<Rightarrow>
                                  (err, api2\<lparr>eth := chain', calls := calls api2 @
                                     [CallWriteStateAndSetHead (BlockHash be blk)]\<rparr>)))))))"

section \<open>A deterministic test double for the collaborators\<close>

text \<open>
  The theorems below hold for every backend. To run the operations on concrete calls, the
  collaborators are instantiated with a small deterministic fake: a decoded transaction
  is its own byte string (the empty string does not decode), the chain is its head block,
  the header hash mixes number, timestamp and the length of the extra bytes, the engine
  rejects a timestamp that is not after the head's, the body validator rejects a block
  with a repeated transaction, the executor rejects a block that uses more gas than its
  limit, and the store fails when the disk is full. \<open>extra\<close> is
  the extra data the miner is configured to put into a sealed header.
\<close>

definition fakeHash :: "Header \<Rightarrow> Hash" where
  "fakeHash h = word_of_int (Header.Number h) * 1000000
                + word_of_nat (unat (Header.Time h)) * 1000
                + word_of_nat (length (Header.Extra h))"

definition fakeDecode :: "bytes \<Rightarrow> error + bytes" where
  "fakeDecode otx =
     (if otx = [] then Inl (ErrCollaborator ''typed transaction too short'') else Inr otx)"

fun fakeDecodeAll :: "bytes list \<Rightarrow> error + bytes list" where
  "fakeDecodeAll [] = Inr []"
| "fakeDecodeAll (otx # rest) =
     (case fakeDecode otx of
        Inl err \<Rightarrow> Inl err
      | Inr tx \<Rightarrow> (case fakeDecodeAll rest of Inl err \<Rightarrow> Inl err | Inr txs \<Rightarrow> Inr (tx # txs)))"

definition fakeBlock ::
  "Hash \<Rightarrow> int \<Rightarrow> uint64 \<Rightarrow> uint64 \<Rightarrow> bytes \<Rightarrow> bytes list \<Rightarrow> bytes Block"
where
  "fakeBlock parentHash n t gasUsed extra txs =
     \<lparr>header =
        \<lparr>Header.ParentHash = parentHash, UncleHash = 0, Coinbase = 0, Root = 0,
         TxHash = word_of_nat (length txs), ReceiptHash = 0, Bloom = 0,
         Difficulty = None, Header.Number = n, Header.GasLimit = 0,
         Header.GasUsed = gasUsed, Time = t, Header.Extra = extra, MixDigest = 0,
         Nonce = 0, Header.BaseFee = None, BLSData = []\<rparr>,
      transactions = txs\<rparr>"

definition fakeSeal ::
  "bytes \<Rightarrow> bytes Block \<Rightarrow> Hash \<Rightarrow> Time \<Rightarrow> bytes list \<Rightarrow> error + (bytes Block \<times> nat \<times> nat)"
where
  "fakeSeal extra c parentHash now txs =
     Inr (fakeBlock parentHash (Header.Number (header c) + 1) (word_of_int now) 0 extra txs,
          1, 2)"

definition fakeBackend :: "bytes \<Rightarrow> bool \<Rightarrow> (bytes, nat, nat, bytes Block) backend" where
  "fakeBackend extra diskFull =
     \<lparr>CurrentHeader = header,
      CurrentBlock = (\<lambda>c. c),
      HeaderHash = fakeHash,
      UnmarshalBinary = fakeDecode,
      decodeTransactions = fakeDecodeAll,
      encodeTransactions = (\<lambda>txs. txs),
      DeriveSha = (\<lambda>txs. word_of_nat (length txs)),
      EmptyRootHash = 0,
      BytesToBloom = (\<lambda>bs. 0),
      BloomBytes = (\<lambda>b. []),
      GetSealingBlockAndState = fakeSeal extra,
      Prepare = (\<lambda>c h. h),
      VerifyHeader = (\<lambda>c h. if Header.Time h \<le> Header.Time (header c)
                              then Some (ErrCollaborator ''timestamp too old'') else None),
      IsValidTxCount = (\<lambda>c n. n \<le> 2),
      ValidateBody = (\<lambda>c b. if distinct (transactions b) then None
                              else Some (ErrCollaborator ''duplicate transaction'')),
      ProcessBlock = (\<lambda>c b p. if Header.GasLimit (header b) < Header.GasUsed (header b)
                               then Inl (ErrCollaborator ''gas limit reached'')
                               else Inr (3, 4, 5)),
      WriteStateAndSetHead = (\<lambda>c b r s d. if diskFull
                                           then (Some (ErrCollaborator ''disk full''), c)
                                           else (None, b))\<rparr>"

text \<open>An engine in the style of clique, whose \<^verbatim>\<open>Prepare\<close> hook rewrites the extra bytes
  of every header to the configured ones.\<close>

definition fakeBackendFixedExtra :: "bytes \<Rightarrow> (bytes, nat, nat, bytes Block) backend" where
  "fakeBackendFixedExtra extra =
     (fakeBackend extra False)\<lparr>Prepare := (\<lambda>c h. h\<lparr>Header.Extra := extra\<rparr>)\<rparr>"

definition genesis :: "bytes Block" where
  "genesis = fakeBlock 0 0 0 0 [] []"

text \<open>A descriptor with the given number, parent hash, timestamp, gas used and encoded
  transactions; every other field is zero.\<close>

definition candidate ::
  "uint64 \<Rightarrow> Hash \<Rightarrow> uint64 \<Rightarrow> uint64 \<Rightarrow> bytes list \<Rightarrow> ExecutableL2Data"
where
  "candidate n parent t gasUsed txs =
     \<lparr>ExecutableL2Data.ParentHash = parent, ExecutableL2Data.Number = n, Miner = 0,
      Timestamp = t, ExecutableL2Data.GasLimit = 0, ExecutableL2Data.BaseFee = None,
      ExecutableL2Data.Extra = [], ExecutableL2Data.Transactions = txs, StateRoot = 0,
      ExecutableL2Data.GasUsed = gasUsed, ReceiptRoot = 0, LogsBloom = []\<rparr>"

text \<open>The coordinator as \<^verbatim>\<open>newL2ConsensusAPI\<close> builds it on a chain whose head is
  \<open>genesis\<close>.\<close>

definition genesisAPI :: "(bytes, nat, nat, bytes Block) l2ConsensusAPI" where
  "genesisAPI = newL2ConsensusAPI genesis"

definition request :: "uint64 \<Rightarrow> bytes list \<Rightarrow> AssembleL2BlockParams" where
  "request n txs =
     \<lparr>AssembleL2BlockParams.Number = n, AssembleL2BlockParams.Transactions = txs\<rparr>"

text \<open>Three states the coordinator reaches on its own: after validating a first
  candidate for block 1 on \<open>genesis\<close>; after then committing a different candidate for
  block 1; and after assembling block 1 from one transaction at clock reading 5.\<close>

definition validatedA :: "(bytes, nat, nat, bytes Block) l2ConsensusAPI" where
  "validatedA = snd (ValidateL2Block (fakeBackend [] False) (candidate 1 0 5 0 [[1]]) genesisAPI)"

definition committedB :: "(bytes, nat, nat, bytes Block) l2ConsensusAPI" where
  "committedB = snd (NewL2Block (fakeBackend [] False) (candidate 1 0 6 0 [[1]]) [] validatedA)"

definition assembled :: "bytes \<Rightarrow> bool \<Rightarrow> (bytes, nat, nat, bytes Block) l2ConsensusAPI" where
  "assembled extra diskFull =
     snd (AssembleL2Block (fakeBackend extra diskFull) 5 9 (request 1 [[1]]) genesisAPI)"

lemmas fake_defs =
  fakeBackend_def fakeBackendFixedExtra_def fakeHash_def fakeDecode_def fakeSeal_def
  fakeBlock_def
  genesis_def candidate_def request_def genesisAPI_def newL2ConsensusAPI_def

lemmas api_defs =
  AssembleL2Block_def ValidateL2Block_def NewL2Block_def paramsToBlock_def VerifyBlock_def
  NumberU64_def Uint64_def BlockHash_def

section \<open>Linearity checks of the Validator and the Committer\<close>

text \<open>
  Claim C6. For every descriptor whose number differs from the current head's number
  plus one, both \<^verbatim>\<open>ValidateL2Block\<close> and \<^verbatim>\<open>NewL2Block\<close> fail with the discontinuity
  error, which carries the actual and the expected number, and return the coordinator
  exactly as it was: same chain, same cache, no collaborator call. Numbers are
  \<^verbatim>\<open>uint64\<close> and the sum is the source's, which wraps.
\<close>

theorem discontinuous_number_rejected:
  assumes "ExecutableL2Data.Number params \<noteq> NumberU64 (CurrentBlock be (eth api)) + 1"
  shows "ValidateL2Block be params api =
           (Inl (ErrDiscontinuous (ExecutableL2Data.Number params)
                   (NumberU64 (CurrentBlock be (eth api)) + 1)), api)
       \<and> NewL2Block be params bls api =
           (Some (ErrDiscontinuous (ExecutableL2Data.Number params)
                   (NumberU64 (CurrentBlock be (eth api)) + 1)), api)"
  using assms by (simp add: ValidateL2Block_def NewL2Block_def Let_def)

theorem discontinuous_number_rejected_witness:
  "ExecutableL2Data.Number (candidate 7 0 5 0 [[1]])
     \<noteq> NumberU64 (CurrentBlock (fakeBackend [] False) (eth genesisAPI)) + 1
   \<and> ValidateL2Block (fakeBackend [] False) (candidate 7 0 5 0 [[1]])
        genesisAPI
       = (Inl (ErrDiscontinuous 7 1), genesisAPI)
   \<and> NewL2Block (fakeBackend [] False) (candidate 7 0 5 0 [[1]]) []
        genesisAPI
       = (Some (ErrDiscontinuous 7 1), genesisAPI)"
  using discontinuous_number_rejected
    [of "candidate 7 0 5 0 [[1]]" "fakeBackend [] False" "genesisAPI" "[]"]
  by (simp add: fake_defs NumberU64_def Uint64_def)

text \<open>
  Claim C7. For every descriptor with the right number but a parent hash different from
  the hash of the current head, both \<^verbatim>\<open>ValidateL2Block\<close> and \<^verbatim>\<open>NewL2Block\<close> fail with the
  parent-mismatch error, which carries the actual and the expected hash, and return the
  coordinator exactly as it was.
\<close>

theorem wrong_parent_rejected:
  assumes "ExecutableL2Data.Number params = NumberU64 (CurrentBlock be (eth api)) + 1"
    and "ExecutableL2Data.ParentHash params \<noteq> BlockHash be (CurrentBlock be (eth api))"
  shows "ValidateL2Block be params api =
           (Inl (ErrWrongParent (ExecutableL2Data.ParentHash params)
                   (BlockHash be (CurrentBlock be (eth api)))), api)
       \<and> NewL2Block be params bls api =
           (Some (ErrWrongParent (ExecutableL2Data.ParentHash params)
                   (BlockHash be (CurrentBlock be (eth api)))), api)"
  using assms by (simp add: ValidateL2Block_def NewL2Block_def Let_def)

theorem wrong_parent_rejected_witness:
  "ExecutableL2Data.Number (candidate 1 99 5 0 [[1]])
     = NumberU64 (CurrentBlock (fakeBackend [] False) (eth genesisAPI)) + 1
   \<and> ExecutableL2Data.ParentHash (candidate 1 99 5 0 [[1]])
     \<noteq> BlockHash (fakeBackend [] False)
         (CurrentBlock (fakeBackend [] False) (eth genesisAPI))
   \<and> ValidateL2Block (fakeBackend [] False) (candidate 1 99 5 0 [[1]])
        genesisAPI
       = (Inl (ErrWrongParent 99 0), genesisAPI)
   \<and> NewL2Block (fakeBackend [] False) (candidate 1 99 5 0 [[1]]) []
        genesisAPI
       = (Some (ErrWrongParent 99 0), genesisAPI)"
  using wrong_parent_rejected
    [of "candidate 1 99 5 0 [[1]]" "fakeBackend [] False" "genesisAPI" "[]"]
  by (simp add: fake_defs NumberU64_def Uint64_def BlockHash_def)

section \<open>The Assembler\<close>

text \<open>The decoding loop stops at the first transaction that does not decode and reports
  its index.\<close>

lemma decodeLoop_first_failure:
  "i < length otxs \<Longrightarrow> UnmarshalBinary be (otxs ! i) = Inl err \<Longrightarrow>
   (\<forall>j<i. \<exists>tx. UnmarshalBinary be (otxs ! j) = Inr tx) \<Longrightarrow>
   decodeLoop be k otxs acc = Inl (ErrTransactionNotValid (k + i) err)"
proof (induction otxs arbitrary: i k acc)
  case Nil
  then show ?case by simp
next
  case (Cons otx rest)
  show ?case
  proof (cases i)
    case 0
    with Cons.prems show ?thesis by simp
  next
    case (Suc i')
    from Cons.prems(3) Suc obtain tx where tx: "UnmarshalBinary be otx = Inr tx"
      by fastforce
    have later: "\<forall>j<i'. \<exists>tx. UnmarshalBinary be (rest ! j) = Inr tx"
    proof (intro allI impI)
      fix j assume "j < i'"
      then have "Suc j < i" using Suc by simp
      with Cons.prems(3) show "\<exists>tx. UnmarshalBinary be (rest ! j) = Inr tx"
        by fastforce
    qed
    have "decodeLoop be (Suc k) rest (acc @ [tx])
            = Inl (ErrTransactionNotValid (Suc k + i') err)"
      using Cons.IH [of i' "Suc k" "acc @ [tx]"] Cons.prems(1,2) Suc later by simp
    with tx Suc show ?thesis by simp
  qed
qed

text \<open>
  Claim C8. Whenever the executor (\<^verbatim>\<open>GetSealingBlockAndState\<close>, reached after the number
  check and the decoding loop) returns a block whose transaction root is the empty root
  hash, \<^verbatim>\<open>AssembleL2Block\<close> returns neither a descriptor nor an error, and leaves the
  verified-result cache and the chain as they were.
\<close>

theorem empty_block_not_assembled:
  assumes "AssembleL2BlockParams.Number params
             = Uint64 (Header.Number (CurrentHeader be (eth api))) + 1"
    and "decodeLoop be 0 (AssembleL2BlockParams.Transactions params) [] = Inr txs"
    and "GetSealingBlockAndState be (eth api) (HeaderHash be (CurrentHeader be (eth api)))
           now txs = Inr (blk, st, rcpts)"
    and "Header.TxHash (header blk) = EmptyRootHash be"
  shows "fst (AssembleL2Block be now elapsed params api) = Inr None
       \<and> verified (snd (AssembleL2Block be now elapsed params api)) = verified api
       \<and> eth (snd (AssembleL2Block be now elapsed params api)) = eth api"
  using assms by (simp add: AssembleL2Block_def Let_def)

theorem empty_block_not_assembled_witness:
  "AssembleL2BlockParams.Number (request 1 [])
     = Uint64 (Header.Number
         (CurrentHeader (fakeBackend [] False) (eth genesisAPI))) + 1
   \<and> decodeLoop (fakeBackend [] False) 0
        (AssembleL2BlockParams.Transactions (request 1 [])) [] = Inr []
   \<and> GetSealingBlockAndState (fakeBackend [] False) genesis 0 5 []
       = Inr (fakeBlock 0 1 5 0 [] [], 1, 2)
   \<and> Header.TxHash (header (fakeBlock 0 1 5 0 [] []))
       = EmptyRootHash (fakeBackend [] False)
   \<and> fst (AssembleL2Block (fakeBackend [] False) 5 9 (request 1 [])
        genesisAPI) = Inr None
   \<and> verified (snd (AssembleL2Block (fakeBackend [] False) 5 9 (request 1 [])
        genesisAPI)) = Map.empty"
proof -
  let ?be = "fakeBackend [] False"
  let ?api = "genesisAPI"
  have n: "AssembleL2BlockParams.Number (request 1 [])
             = Uint64 (Header.Number (CurrentHeader ?be (eth ?api))) + 1"
    by (simp add: fake_defs Uint64_def)
  have d: "decodeLoop ?be 0 (AssembleL2BlockParams.Transactions (request 1 [])) [] = Inr []"
    by (simp add: request_def)
  have s: "GetSealingBlockAndState ?be (eth ?api) (HeaderHash ?be (CurrentHeader ?be (eth ?api)))
             5 [] = Inr (fakeBlock 0 1 5 0 [] [], 1, 2)"
    by (simp add: fake_defs)
  have s': "GetSealingBlockAndState ?be genesis 0 5 []
              = Inr (fakeBlock 0 1 5 0 [] [], 1, 2)"
    by (simp add: fake_defs)
  have e: "Header.TxHash (header (fakeBlock 0 1 5 0 [] [])) = EmptyRootHash ?be"
    by (simp add: fake_defs)
  from empty_block_not_assembled [OF n d s e, of 9] n d s' e show ?thesis
    by (simp add: genesisAPI_def newL2ConsensusAPI_def)
qed

text \<open>
  Claim C9, as amended. \<^verbatim>\<open>AssembleL2Block\<close> checks the requested number first. When the
  requested number is the head's number plus one and the transaction at index \<open>i\<close> is the
  first that does not decode, \<^verbatim>\<open>AssembleL2Block\<close> returns the error
  "transaction \<open>i\<close> is not valid" with the decoder's error, and returns the coordinator
  exactly as it was, the cache included.
\<close>

theorem malformed_transaction_reported:
  assumes "AssembleL2BlockParams.Number params
             = Uint64 (Header.Number (CurrentHeader be (eth api))) + 1"
    and "i < length (AssembleL2BlockParams.Transactions params)"
    and "UnmarshalBinary be (AssembleL2BlockParams.Transactions params ! i) = Inl err"
    and "\<forall>j<i. \<exists>tx. UnmarshalBinary be (AssembleL2BlockParams.Transactions params ! j)
                      = Inr tx"
  shows "AssembleL2Block be now elapsed params api = (Inl (ErrTransactionNotValid i err), api)"
proof -
  have "decodeLoop be 0 (AssembleL2BlockParams.Transactions params) []
          = Inl (ErrTransactionNotValid i err)"
    using decodeLoop_first_failure [OF assms(2,3,4), of 0 "[]"] by simp
  with assms(1) show ?thesis by (simp add: AssembleL2Block_def Let_def)
qed

text \<open>The specification's example: five transactions, the one at index 2 malformed (and
  the last one too).\<close>

theorem malformed_transaction_reported_witness:
  "AssembleL2BlockParams.Number (request 1 [[1], [2], [], [3], []])
     = Uint64 (Header.Number
         (CurrentHeader (fakeBackend [] False) (eth genesisAPI))) + 1
   \<and> 2 < length (AssembleL2BlockParams.Transactions (request 1 [[1], [2], [], [3], []]))
   \<and> UnmarshalBinary (fakeBackend [] False)
        (AssembleL2BlockParams.Transactions (request 1 [[1], [2], [], [3], []]) ! 2)
       = Inl (ErrCollaborator ''typed transaction too short'')
   \<and> UnmarshalBinary (fakeBackend [] False)
        (AssembleL2BlockParams.Transactions (request 1 [[1], [2], [], [3], []]) ! 0)
       = Inr [1]
   \<and> UnmarshalBinary (fakeBackend [] False)
        (AssembleL2BlockParams.Transactions (request 1 [[1], [2], [], [3], []]) ! 1)
       = Inr [2]
   \<and> AssembleL2Block (fakeBackend [] False) 5 9 (request 1 [[1], [2], [], [3], []])
        genesisAPI
       = (Inl (ErrTransactionNotValid 2 (ErrCollaborator ''typed transaction too short'')),
          genesisAPI)"
proof -
  let ?be = "fakeBackend [] False"
  let ?api = "genesisAPI"
  let ?req = "request 1 [[1], [2], [], [3], []]"
  have n: "AssembleL2BlockParams.Number ?req
             = Uint64 (Header.Number (CurrentHeader ?be (eth ?api))) + 1"
    by (simp add: fake_defs Uint64_def)
  have l: "2 < length (AssembleL2BlockParams.Transactions ?req)"
    by (simp add: request_def)
  have f: "UnmarshalBinary ?be (AssembleL2BlockParams.Transactions ?req ! 2)
             = Inl (ErrCollaborator ''typed transaction too short'')"
    by (simp add: fake_defs)
  have b: "\<forall>j<2. \<exists>tx. UnmarshalBinary ?be (AssembleL2BlockParams.Transactions ?req ! j)
                       = Inr tx"
    by (simp add: fake_defs less_Suc_eq numeral_2_eq_2)
  have b0: "UnmarshalBinary ?be (AssembleL2BlockParams.Transactions ?req ! 0) = Inr [1]"
    by (simp add: fake_defs)
  have b1: "UnmarshalBinary ?be (AssembleL2BlockParams.Transactions ?req ! 1) = Inr [2]"
    by (simp add: fake_defs)
  from n l f b0 b1 malformed_transaction_reported [OF n l f b, of 5 9] show ?thesis by blast
qed

text \<open>The claim as first stated, without the condition on the number, fails: a request
  for block 7 on a chain whose head is block 0, whose only transaction does not decode,
  is answered with the discontinuity error, which names no transaction index.\<close>

theorem malformed_transaction_counterexample:
  "UnmarshalBinary (fakeBackend [] False)
     (AssembleL2BlockParams.Transactions (request 7 [[]]) ! 0)
     = Inl (ErrCollaborator ''typed transaction too short'')
   \<and> AssembleL2Block (fakeBackend [] False) 5 9 (request 7 [[]]) genesisAPI
     = (Inl (ErrDiscontinuous 7 1), genesisAPI)"
  by (simp add: fake_defs AssembleL2Block_def Uint64_def)

section \<open>The paths of the Validator and the Committer\<close>

text \<open>\<^verbatim>\<open>VerifyBlock\<close> fails with the engine's error, or with "invalid tx count"; it
  records the engine call and changes nothing else.\<close>

lemma VerifyBlock_fst:
  "fst (VerifyBlock be blk api) =
     (case VerifyHeader be (eth api) (header blk) of
        Some err \<Rightarrow> Some err
      | None \<Rightarrow> if IsValidTxCount be (eth api) (length (transactions blk)) then None
                else Some ErrInvalidTxCount)"
  by (simp add: VerifyBlock_def Let_def split: option.splits)

lemma VerifyBlock_snd:
  "snd (VerifyBlock be blk api) = api\<lparr>calls := calls api @ [CallVerifyHeader (BlockHash be blk)]\<rparr>"
  by (simp add: VerifyBlock_def Let_def split: option.splits)

lemma VerifyBlock_eq:
  "VerifyBlock be blk api =
    (fst (VerifyBlock be blk api), api\<lparr>calls := calls api @ [CallVerifyHeader (BlockHash be blk)]\<rparr>)"
  using VerifyBlock_snd [of be blk api] by (cases "VerifyBlock be blk api") simp

text \<open>Materialization fails exactly when \<^verbatim>\<open>decodeTransactions\<close> does, with its error.\<close>

lemma paramsToBlock_error:
  "paramsToBlock be chain params bls = Inl err \<longleftrightarrow>
   decodeTransactions be (ExecutableL2Data.Transactions params) = Inl err"
  by (simp add: paramsToBlock_def Let_def split: sum.splits)

text \<open>Past the two linearity checks and the materialization, each operation is one of
  two paths, chosen by the cache lookup.\<close>

lemma ValidateL2Block_miss_eq:
  assumes "ExecutableL2Data.Number params = NumberU64 (CurrentBlock be (eth api)) + 1"
    and "ExecutableL2Data.ParentHash params = BlockHash be (CurrentBlock be (eth api))"
    and "paramsToBlock be (eth api) params [] = Inr blk"
    and "verified api (BlockHash be blk) = None"
  shows "ValidateL2Block be params api =
    (let h = BlockHash be blk;
         api1 = api\<lparr>calls := calls api @ [CallVerifyHeader h]\<rparr>;
         api2 = api\<lparr>calls := calls api @ [CallVerifyHeader h, CallValidateBody h]\<rparr>;
         api3 = api\<lparr>calls := calls api @ [CallVerifyHeader h, CallValidateBody h, CallProcessBlock h]\<rparr>
     in case fst (VerifyBlock be blk api) of
          Some err \<Rightarrow> (Inr \<lparr>Success = False\<rparr>, api1)
        | None \<Rightarrow>
           (case ValidateBody be (eth api) blk of
              Some err \<Rightarrow> (Inr \<lparr>Success = False\<rparr>, api2)
            | None \<Rightarrow>
               (case ProcessBlock be (eth api) blk (header (CurrentBlock be (eth api))) of
                  Inl err \<Rightarrow> (Inr \<lparr>Success = False\<rparr>, api3)
                | Inr (stateDB, rcpts, pt) \<Rightarrow>
                    (Inr \<lparr>Success = True\<rparr>,
                     api3\<lparr>verified := (verified api)(h \<mapsto>
                        \<lparr>block = blk, state = stateDB, receipts = rcpts, procTime = pt\<rparr>)\<rparr>))))"
  apply (subst ValidateL2Block_def)
  apply (subst VerifyBlock_eq)
  apply (simp add: assms Let_def split: option.split sum.split prod.split)
  done

lemma NewL2Block_miss_eq:
  assumes "ExecutableL2Data.Number params = NumberU64 (CurrentBlock be (eth api)) + 1"
    and "ExecutableL2Data.ParentHash params = BlockHash be (CurrentBlock be (eth api))"
    and "paramsToBlock be (eth api) params bls = Inr blk"
    and "verified api (BlockHash be blk) = None"
  shows "NewL2Block be params bls api =
    (let h = BlockHash be blk;
         api1 = api\<lparr>calls := calls api @ [CallVerifyHeader h]\<rparr>;
         api2 = api\<lparr>calls := calls api @ [CallVerifyHeader h, CallProcessBlock h]\<rparr>
     in case fst (VerifyBlock be blk api) of
          Some err \<Rightarrow> (Some err, api1)
        | None \<Rightarrow>
           (case ProcessBlock be (eth api) blk (header (CurrentBlock be (eth api))) of
              Inl err \<Rightarrow> (Some err, api2)
            | Inr (stateDB, rcpts, pt) \<Rightarrow>
                (fst (WriteStateAndSetHead be (eth api) blk rcpts stateDB pt),
                 api\<lparr>eth := snd (WriteStateAndSetHead be (eth api) blk rcpts stateDB pt),
                     calls := calls api @ [CallVerifyHeader h, CallProcessBlock h,
                                           CallWriteStateAndSetHead h]\<rparr>)))"
  apply (subst NewL2Block_def)
  apply (subst VerifyBlock_eq)
  apply (simp add: assms Let_def split: option.split sum.split prod.split)
  done

lemma NewL2Block_hit_eq:
  assumes "ExecutableL2Data.Number params = NumberU64 (CurrentBlock be (eth api)) + 1"
    and "ExecutableL2Data.ParentHash params = BlockHash be (CurrentBlock be (eth api))"
    and "paramsToBlock be (eth api) params bls = Inr blk"
    and "verified api (BlockHash be blk) = Some bas"
  shows "NewL2Block be params bls api =
    (let w = WriteStateAndSetHead be (eth api) blk (receipts bas) (state bas) (procTime bas);
         api1 = api\<lparr>eth := snd w,
                    calls := calls api @ [CallWriteStateAndSetHead (BlockHash be blk)]\<rparr>
     in if fst w = None then (None, api1\<lparr>verified := Map.empty\<rparr>) else (fst w, api1))"
  apply (subst NewL2Block_def)
  apply (simp add: assms Let_def split: prod.split)
  done

lemma ValidateL2Block_hit_eq:
  assumes "ExecutableL2Data.Number params = NumberU64 (CurrentBlock be (eth api)) + 1"
    and "ExecutableL2Data.ParentHash params = BlockHash be (CurrentBlock be (eth api))"
    and "paramsToBlock be (eth api) params [] = Inr blk"
    and "verified api (BlockHash be blk) = Some bas"
  shows "ValidateL2Block be params api = (Inr \<lparr>Success = True\<rparr>, api)"
  by (simp add: ValidateL2Block_def assms Let_def)

text \<open>What a successful assembly leaves behind.\<close>

lemma AssembleL2Block_success:
  assumes asm: "AssembleL2Block be now elapsed req api = (Inr (Some D), api1)"
    and dec: "decodeLoop be 0 (AssembleL2BlockParams.Transactions req) [] = Inr txs"
    and seal: "GetSealingBlockAndState be (eth api) (HeaderHash be (CurrentHeader be (eth api)))
                 now txs = Inr (blk, st, rcpts)"
  shows "api1 = api\<lparr>calls := calls api @
                   [CallGetSealingBlockAndState (HeaderHash be (CurrentHeader be (eth api)))],
                 verified := (verified api)(BlockHash be blk \<mapsto>
                   \<lparr>block = blk, state = st, receipts = rcpts, procTime = elapsed\<rparr>)\<rparr>"
    and "ExecutableL2Data.Extra D = []"
    and "ExecutableL2Data.ParentHash D = Header.ParentHash (header blk)"
    and "ExecutableL2Data.Number D = NumberU64 blk"
    and "D = \<lparr>ExecutableL2Data.ParentHash = Header.ParentHash (header blk),
                            ExecutableL2Data.Number = NumberU64 blk,
                            Miner = Header.Coinbase (header blk),
                            Timestamp = Header.Time (header blk),
                            ExecutableL2Data.GasLimit = Header.GasLimit (header blk),
                            ExecutableL2Data.BaseFee = Header.BaseFee (header blk),
                            ExecutableL2Data.Extra = [],
                            ExecutableL2Data.Transactions =
                              encodeTransactions be (transactions blk),
                            StateRoot = Header.Root (header blk),
                            ExecutableL2Data.GasUsed = Header.GasUsed (header blk),
                            ReceiptRoot = Header.ReceiptHash (header blk),
                            LogsBloom = BloomBytes be (Header.Bloom (header blk))\<rparr>"
proof -
  have num: "AssembleL2BlockParams.Number req
               = Uint64 (Header.Number (CurrentHeader be (eth api))) + 1"
  proof (rule ccontr)
    assume "\<not> ?thesis"
    with asm show False by (simp add: AssembleL2Block_def Let_def)
  qed
  have ne: "Header.TxHash (header blk) \<noteq> EmptyRootHash be"
  proof
    assume "Header.TxHash (header blk) = EmptyRootHash be"
    with asm num dec seal show False by (simp add: AssembleL2Block_def Let_def)
  qed
  from asm num dec seal ne
  have D: "D = \<lparr>ExecutableL2Data.ParentHash = Header.ParentHash (header blk),
                            ExecutableL2Data.Number = NumberU64 blk,
                            Miner = Header.Coinbase (header blk),
                            Timestamp = Header.Time (header blk),
                            ExecutableL2Data.GasLimit = Header.GasLimit (header blk),
                            ExecutableL2Data.BaseFee = Header.BaseFee (header blk),
                            ExecutableL2Data.Extra = [],
                            ExecutableL2Data.Transactions =
                              encodeTransactions be (transactions blk),
                            StateRoot = Header.Root (header blk),
                            ExecutableL2Data.GasUsed = Header.GasUsed (header blk),
                            ReceiptRoot = Header.ReceiptHash (header blk),
                            LogsBloom = BloomBytes be (Header.Bloom (header blk))\<rparr>"
    and A: "api1 = api\<lparr>calls := calls api @
                   [CallGetSealingBlockAndState (HeaderHash be (CurrentHeader be (eth api)))],
                 verified := (verified api)(BlockHash be blk \<mapsto>
                   \<lparr>block = blk, state = st, receipts = rcpts, procTime = elapsed\<rparr>)\<rparr>"
    by (simp_all add: AssembleL2Block_def Let_def)
  show "api1 = api\<lparr>calls := calls api @
                   [CallGetSealingBlockAndState (HeaderHash be (CurrentHeader be (eth api)))],
                 verified := (verified api)(BlockHash be blk \<mapsto>
                   \<lparr>block = blk, state = st, receipts = rcpts, procTime = elapsed\<rparr>)\<rparr>"
    by (rule A)
  show "ExecutableL2Data.Extra D = []" by (simp add: D)
  show "ExecutableL2Data.ParentHash D = Header.ParentHash (header blk)" by (simp add: D)
  show "ExecutableL2Data.Number D = NumberU64 blk" by (simp add: D)
  show "D = \<lparr>ExecutableL2Data.ParentHash = Header.ParentHash (header blk),
                            ExecutableL2Data.Number = NumberU64 blk,
                            Miner = Header.Coinbase (header blk),
                            Timestamp = Header.Time (header blk),
                            ExecutableL2Data.GasLimit = Header.GasLimit (header blk),
                            ExecutableL2Data.BaseFee = Header.BaseFee (header blk),
                            ExecutableL2Data.Extra = [],
                            ExecutableL2Data.Transactions =
                              encodeTransactions be (transactions blk),
                            StateRoot = Header.Root (header blk),
                            ExecutableL2Data.GasUsed = Header.GasUsed (header blk),
                            ReceiptRoot = Header.ReceiptHash (header blk),
                            LogsBloom = BloomBytes be (Header.Bloom (header blk))\<rparr>"
    by (rule D)
qed

lemma paramsToBlock_Extra:
  assumes "paramsToBlock be chain params bls = Inr blk"
  shows "Header.Extra (header blk)
           = Header.Extra (Prepare be chain
               \<lparr>Header.ParentHash = ExecutableL2Data.ParentHash params,
                UncleHash = 0, Coinbase = Miner params, Root = 0, TxHash = 0,
                ReceiptHash = 0, Bloom = 0, Difficulty = None,
                Header.Number = sint (ExecutableL2Data.Number params),
                Header.GasLimit = ExecutableL2Data.GasLimit params,
                Header.GasUsed = ExecutableL2Data.GasUsed params,
                Time = Timestamp params,
                Header.Extra = ExecutableL2Data.Extra params,
                MixDigest = 0, Nonce = 0,
                Header.BaseFee = ExecutableL2Data.BaseFee params,
                BLSData = bls\<rparr>)"
  using assms by (auto simp add: paramsToBlock_def Let_def split: sum.splits)

lemma executions_append: "executions (xs @ ys) = executions xs + executions ys"
  by (induction xs rule: executions.induct) simp_all

text \<open>The three states of the test double, evaluated.\<close>

lemma validatedA_eq:
  "ValidateL2Block (fakeBackend [] False) (candidate 1 0 5 0 [[1]]) genesisAPI =
     (Inr \<lparr>Success = True\<rparr>,
      \<lparr>eth = genesis,
       verified = [1005000 \<mapsto> \<lparr>block = fakeBlock 0 1 5 0 [] [[1]], state = 3, receipts = 4,
                                procTime = 5\<rparr>],
       calls = [CallVerifyHeader 1005000, CallValidateBody 1005000, CallProcessBlock 1005000]\<rparr>)"
  by (simp add: fake_defs api_defs)

lemma validatedA_state:
  "validatedA =
      \<lparr>eth = genesis,
       verified = [1005000 \<mapsto> \<lparr>block = fakeBlock 0 1 5 0 [] [[1]], state = 3, receipts = 4,
                                procTime = 5\<rparr>],
       calls = [CallVerifyHeader 1005000, CallValidateBody 1005000, CallProcessBlock 1005000]\<rparr>"
  by (simp add: validatedA_def validatedA_eq)

lemma committedB_eq:
  "NewL2Block (fakeBackend [] False) (candidate 1 0 6 0 [[1]]) [] validatedA =
     (None,
      \<lparr>eth = fakeBlock 0 1 6 0 [] [[1]],
       verified = [1005000 \<mapsto> \<lparr>block = fakeBlock 0 1 5 0 [] [[1]], state = 3, receipts = 4,
                                procTime = 5\<rparr>],
       calls = [CallVerifyHeader 1005000, CallValidateBody 1005000, CallProcessBlock 1005000,
                CallVerifyHeader 1006000, CallProcessBlock 1006000,
                CallWriteStateAndSetHead 1006000]\<rparr>)"
  unfolding validatedA_def validatedA_eq
  by (simp add: fake_defs api_defs)

lemma committedB_state:
  "committedB =
      \<lparr>eth = fakeBlock 0 1 6 0 [] [[1]],
       verified = [1005000 \<mapsto> \<lparr>block = fakeBlock 0 1 5 0 [] [[1]], state = 3, receipts = 4,
                                procTime = 5\<rparr>],
       calls = [CallVerifyHeader 1005000, CallValidateBody 1005000, CallProcessBlock 1005000,
                CallVerifyHeader 1006000, CallProcessBlock 1006000,
                CallWriteStateAndSetHead 1006000]\<rparr>"
  by (simp add: committedB_def committedB_eq)

lemma assembled_eq:
  "AssembleL2Block (fakeBackend extra diskFull) 5 9 (request 1 [[1]]) genesisAPI =
     (Inr (Some (candidate 1 0 5 0 [[1]])),
      \<lparr>eth = genesis,
       verified = [BlockHash (fakeBackend extra diskFull) (fakeBlock 0 1 5 0 extra [[1]]) \<mapsto>
                    \<lparr>block = fakeBlock 0 1 5 0 extra [[1]], state = 1, receipts = 2,
                     procTime = 9\<rparr>],
       calls = [CallGetSealingBlockAndState 0]\<rparr>)"
  by (simp add: fake_defs api_defs)

lemma assembled_state:
  "assembled extra diskFull =
      \<lparr>eth = genesis,
       verified = [BlockHash (fakeBackend extra diskFull) (fakeBlock 0 1 5 0 extra [[1]]) \<mapsto>
                    \<lparr>block = fakeBlock 0 1 5 0 extra [[1]], state = 1, receipts = 2,
                     procTime = 9\<rparr>],
       calls = [CallGetSealingBlockAndState 0]\<rparr>"
  by (simp add: assembled_def assembled_eq)

section \<open>Errors and boolean outcomes\<close>

text \<open>
  Claim C4. \<^verbatim>\<open>ValidateL2Block\<close> returns an error only for a discontinuous number, a
  parent-hash mismatch or a failure of \<^verbatim>\<open>decodeTransactions\<close> (first conjunct: every
  returned error is one of the three). A failure of the engine's header verification, of
  the transaction-count policy, of the body validator or of the executor, on the
  cache-miss path where they run, gives the response \<open>Success = False\<close> with no error
  (second conjunct).
\<close>

theorem ValidateL2Block_errors_only_for_preconditions:
  "(fst (ValidateL2Block be params api) = Inl err \<longrightarrow>
      (ExecutableL2Data.Number params \<noteq> NumberU64 (CurrentBlock be (eth api)) + 1 \<and>
       err = ErrDiscontinuous (ExecutableL2Data.Number params)
               (NumberU64 (CurrentBlock be (eth api)) + 1))
    \<or> (ExecutableL2Data.Number params = NumberU64 (CurrentBlock be (eth api)) + 1 \<and>
       ExecutableL2Data.ParentHash params \<noteq> BlockHash be (CurrentBlock be (eth api)) \<and>
       err = ErrWrongParent (ExecutableL2Data.ParentHash params)
               (BlockHash be (CurrentBlock be (eth api))))
    \<or> (ExecutableL2Data.Number params = NumberU64 (CurrentBlock be (eth api)) + 1 \<and>
       ExecutableL2Data.ParentHash params = BlockHash be (CurrentBlock be (eth api)) \<and>
       decodeTransactions be (ExecutableL2Data.Transactions params) = Inl err))
   \<and>
   (ExecutableL2Data.Number params = NumberU64 (CurrentBlock be (eth api)) + 1 \<and>
    ExecutableL2Data.ParentHash params = BlockHash be (CurrentBlock be (eth api)) \<and>
    paramsToBlock be (eth api) params [] = Inr blk \<and>
    verified api (BlockHash be blk) = None \<and>
    (VerifyHeader be (eth api) (header blk) \<noteq> None
     \<or> \<not> IsValidTxCount be (eth api) (length (transactions blk))
     \<or> ValidateBody be (eth api) blk \<noteq> None
     \<or> (\<exists>e. ProcessBlock be (eth api) blk (header (CurrentBlock be (eth api))) = Inl e))
    \<longrightarrow> fst (ValidateL2Block be params api) = Inr \<lparr>Success = False\<rparr>)"
proof (intro conjI impI)
  assume err: "fst (ValidateL2Block be params api) = Inl err"
  let ?num = "ExecutableL2Data.Number params = NumberU64 (CurrentBlock be (eth api)) + 1"
  let ?par = "ExecutableL2Data.ParentHash params = BlockHash be (CurrentBlock be (eth api))"
  show "(ExecutableL2Data.Number params \<noteq> NumberU64 (CurrentBlock be (eth api)) + 1 \<and>
       err = ErrDiscontinuous (ExecutableL2Data.Number params)
               (NumberU64 (CurrentBlock be (eth api)) + 1))
    \<or> (?num \<and> \<not> ?par \<and>
       err = ErrWrongParent (ExecutableL2Data.ParentHash params)
               (BlockHash be (CurrentBlock be (eth api))))
    \<or> (?num \<and> ?par \<and> decodeTransactions be (ExecutableL2Data.Transactions params) = Inl err)"
  proof (cases ?num)
    case False
    with err show ?thesis by (simp add: ValidateL2Block_def Let_def)
  next
    case num: True
    show ?thesis
    proof (cases ?par)
      case False
      with err num show ?thesis by (simp add: ValidateL2Block_def Let_def)
    next
      case par: True
      show ?thesis
      proof (cases "paramsToBlock be (eth api) params []")
        case (Inl e)
        with err num par have "e = err" by (simp add: ValidateL2Block_def Let_def)
        with Inl have "decodeTransactions be (ExecutableL2Data.Transactions params) = Inl err"
          by (simp add: paramsToBlock_error)
        with num par show ?thesis by simp
      next
        case (Inr blk')
        show ?thesis
        proof (cases "verified api (BlockHash be blk')")
          case None
          from err have False
            unfolding ValidateL2Block_miss_eq [OF num par Inr None]
            by (simp add: Let_def split: option.splits sum.splits prod.splits)
          then show ?thesis ..
        next
          case (Some bas)
          with err num par Inr have False by (simp add: ValidateL2Block_def Let_def)
          then show ?thesis ..
        qed
      qed
    qed
  qed
next
  assume h: "ExecutableL2Data.Number params = NumberU64 (CurrentBlock be (eth api)) + 1 \<and>
    ExecutableL2Data.ParentHash params = BlockHash be (CurrentBlock be (eth api)) \<and>
    paramsToBlock be (eth api) params [] = Inr blk \<and>
    verified api (BlockHash be blk) = None \<and>
    (VerifyHeader be (eth api) (header blk) \<noteq> None
     \<or> \<not> IsValidTxCount be (eth api) (length (transactions blk))
     \<or> ValidateBody be (eth api) blk \<noteq> None
     \<or> (\<exists>e. ProcessBlock be (eth api) blk (header (CurrentBlock be (eth api))) = Inl e))"
  then have num: "ExecutableL2Data.Number params = NumberU64 (CurrentBlock be (eth api)) + 1"
    and par: "ExecutableL2Data.ParentHash params = BlockHash be (CurrentBlock be (eth api))"
    and mat: "paramsToBlock be (eth api) params [] = Inr blk"
    and miss: "verified api (BlockHash be blk) = None"
    by simp_all
  from h have fail: "VerifyHeader be (eth api) (header blk) \<noteq> None
     \<or> \<not> IsValidTxCount be (eth api) (length (transactions blk))
     \<or> ValidateBody be (eth api) blk \<noteq> None
     \<or> (\<exists>e. ProcessBlock be (eth api) blk (header (CurrentBlock be (eth api))) = Inl e)"
    by simp
  then show "fst (ValidateL2Block be params api) = Inr \<lparr>Success = False\<rparr>"
    unfolding ValidateL2Block_miss_eq [OF num par mat miss] VerifyBlock_fst
    by (auto simp add: Let_def split: option.splits sum.splits)
qed

theorem ValidateL2Block_errors_only_for_preconditions_witness:
  "fst (ValidateL2Block (fakeBackend [] False) (candidate 1 0 5 0 [[1], []]) genesisAPI)
     = Inl (ErrCollaborator ''typed transaction too short'')
   \<and> decodeTransactions (fakeBackend [] False)
        (ExecutableL2Data.Transactions (candidate 1 0 5 0 [[1], []]))
     = Inl (ErrCollaborator ''typed transaction too short'')
   \<and> ExecutableL2Data.Number (candidate 1 0 5 1 [[1]])
       = NumberU64 (CurrentBlock (fakeBackend [] False) (eth genesisAPI)) + 1
   \<and> ExecutableL2Data.ParentHash (candidate 1 0 5 1 [[1]])
       = BlockHash (fakeBackend [] False) (CurrentBlock (fakeBackend [] False) (eth genesisAPI))
   \<and> paramsToBlock (fakeBackend [] False) (eth genesisAPI) (candidate 1 0 5 1 [[1]]) []
       = Inr (fakeBlock 0 1 5 1 [] [[1]])
   \<and> verified genesisAPI (BlockHash (fakeBackend [] False) (fakeBlock 0 1 5 1 [] [[1]])) = None
   \<and> ProcessBlock (fakeBackend [] False) (eth genesisAPI) (fakeBlock 0 1 5 1 [] [[1]])
        (header (CurrentBlock (fakeBackend [] False) (eth genesisAPI)))
       = Inl (ErrCollaborator ''gas limit reached'')
   \<and> fst (ValidateL2Block (fakeBackend [] False) (candidate 1 0 5 1 [[1]]) genesisAPI)
       = Inr \<lparr>Success = False\<rparr>"
proof -
  let ?be = "fakeBackend [] False"
  let ?bad = "candidate 1 0 5 0 [[1], []]"
  let ?p = "candidate 1 0 5 1 [[1]]"
  let ?blk = "fakeBlock 0 1 5 1 [] [[1]]"
  let ?e = "ErrCollaborator ''typed transaction too short''"
  have r: "fst (ValidateL2Block ?be ?bad genesisAPI) = Inl ?e"
    by (simp add: fake_defs api_defs)
  have "ExecutableL2Data.Number ?bad = NumberU64 (CurrentBlock ?be (eth genesisAPI)) + 1"
    and "ExecutableL2Data.ParentHash ?bad = BlockHash ?be (CurrentBlock ?be (eth genesisAPI))"
    by (simp_all add: fake_defs api_defs)
  with r ValidateL2Block_errors_only_for_preconditions [of ?be ?bad genesisAPI ?e]
  have d: "decodeTransactions ?be (ExecutableL2Data.Transactions ?bad) = Inl ?e"
    by blast
  have num: "ExecutableL2Data.Number ?p = NumberU64 (CurrentBlock ?be (eth genesisAPI)) + 1"
    by (simp add: fake_defs api_defs)
  have par: "ExecutableL2Data.ParentHash ?p = BlockHash ?be (CurrentBlock ?be (eth genesisAPI))"
    by (simp add: fake_defs api_defs)
  have mat: "paramsToBlock ?be (eth genesisAPI) ?p [] = Inr ?blk"
    by (simp add: fake_defs api_defs)
  have miss: "verified genesisAPI (BlockHash ?be ?blk) = None"
    by (simp add: fake_defs)
  have ex: "ProcessBlock ?be (eth genesisAPI) ?blk (header (CurrentBlock ?be (eth genesisAPI)))
              = Inl (ErrCollaborator ''gas limit reached'')"
    by (simp add: fake_defs)
  from num par mat miss ex ValidateL2Block_errors_only_for_preconditions [of ?be ?p genesisAPI undefined ?blk]
  have f: "fst (ValidateL2Block ?be ?p genesisAPI) = Inr \<lparr>Success = False\<rparr>"
    by blast
  from r d num par mat miss ex f show ?thesis by blast
qed

text \<open>
  Claim C5. On a cache miss (number and parent hash right, block materialized, its hash
  not in the cache) \<^verbatim>\<open>NewL2Block\<close> first calls the engine through \<^verbatim>\<open>VerifyBlock\<close>, the
  function the Validator uses; a failure of the header verification, of the
  transaction-count policy, of the executor or of the store write is returned as the
  error. The last conjunct is the Validator on the same block: there the failure of
  \<^verbatim>\<open>VerifyBlock\<close> is the boolean \<open>Success = False\<close>.
\<close>

theorem NewL2Block_miss_propagates_failures:
  assumes num: "ExecutableL2Data.Number params = NumberU64 (CurrentBlock be (eth api)) + 1"
    and par: "ExecutableL2Data.ParentHash params = BlockHash be (CurrentBlock be (eth api))"
    and mat: "paramsToBlock be (eth api) params bls = Inr blk"
    and miss: "verified api (BlockHash be blk) = None"
  shows "take (Suc (length (calls api))) (calls (snd (NewL2Block be params bls api)))
           = calls api @ [CallVerifyHeader (BlockHash be blk)]
       \<and> (VerifyHeader be (eth api) (header blk) = Some err \<longrightarrow>
            NewL2Block be params bls api = (Some err, snd (VerifyBlock be blk api)))
       \<and> (VerifyHeader be (eth api) (header blk) = None \<and>
          \<not> IsValidTxCount be (eth api) (length (transactions blk)) \<longrightarrow>
            NewL2Block be params bls api = (Some ErrInvalidTxCount, snd (VerifyBlock be blk api)))
       \<and> (fst (VerifyBlock be blk api) = None \<and>
          ProcessBlock be (eth api) blk (header (CurrentBlock be (eth api))) = Inl err \<longrightarrow>
            fst (NewL2Block be params bls api) = Some err)
       \<and> (fst (VerifyBlock be blk api) = None \<and>
          ProcessBlock be (eth api) blk (header (CurrentBlock be (eth api)))
            = Inr (stateDB, rcpts, pt) \<and>
          fst (WriteStateAndSetHead be (eth api) blk rcpts stateDB pt) = Some err \<longrightarrow>
            fst (NewL2Block be params bls api) = Some err)
       \<and> (bls = [] \<and> fst (VerifyBlock be blk api) \<noteq> None \<longrightarrow>
            ValidateL2Block be params api
              = (Inr \<lparr>Success = False\<rparr>, snd (VerifyBlock be blk api)))"
proof (intro conjI impI)
  show "take (Suc (length (calls api))) (calls (snd (NewL2Block be params bls api)))
           = calls api @ [CallVerifyHeader (BlockHash be blk)]"
    unfolding NewL2Block_miss_eq [OF num par mat miss]
    by (simp add: Let_def split: option.splits sum.splits prod.splits)
next
  assume "VerifyHeader be (eth api) (header blk) = Some err"
  then show "NewL2Block be params bls api = (Some err, snd (VerifyBlock be blk api))"
    unfolding NewL2Block_miss_eq [OF num par mat miss] VerifyBlock_fst VerifyBlock_snd
    by (simp add: Let_def)
next
  assume "VerifyHeader be (eth api) (header blk) = None \<and>
          \<not> IsValidTxCount be (eth api) (length (transactions blk))"
  then show "NewL2Block be params bls api = (Some ErrInvalidTxCount, snd (VerifyBlock be blk api))"
    unfolding NewL2Block_miss_eq [OF num par mat miss] VerifyBlock_fst VerifyBlock_snd
    by (simp add: Let_def)
next
  assume "fst (VerifyBlock be blk api) = None \<and>
          ProcessBlock be (eth api) blk (header (CurrentBlock be (eth api))) = Inl err"
  then show "fst (NewL2Block be params bls api) = Some err"
    unfolding NewL2Block_miss_eq [OF num par mat miss]
    by (simp add: Let_def)
next
  assume "fst (VerifyBlock be blk api) = None \<and>
          ProcessBlock be (eth api) blk (header (CurrentBlock be (eth api)))
            = Inr (stateDB, rcpts, pt) \<and>
          fst (WriteStateAndSetHead be (eth api) blk rcpts stateDB pt) = Some err"
  then show "fst (NewL2Block be params bls api) = Some err"
    unfolding NewL2Block_miss_eq [OF num par mat miss]
    by (simp add: Let_def)
next
  assume a: "bls = [] \<and> fst (VerifyBlock be blk api) \<noteq> None"
  with mat have mat': "paramsToBlock be (eth api) params [] = Inr blk" by simp
  from a show "ValidateL2Block be params api
              = (Inr \<lparr>Success = False\<rparr>, snd (VerifyBlock be blk api))"
    unfolding ValidateL2Block_miss_eq [OF num par mat' miss] VerifyBlock_snd
    by (auto simp add: Let_def split: option.splits)
qed

theorem NewL2Block_miss_propagates_failures_witness:
  "ExecutableL2Data.Number (candidate 1 0 0 0 [[1]])
       = NumberU64 (CurrentBlock (fakeBackend [] False) (eth genesisAPI)) + 1
   \<and> ExecutableL2Data.ParentHash (candidate 1 0 0 0 [[1]])
       = BlockHash (fakeBackend [] False) (CurrentBlock (fakeBackend [] False) (eth genesisAPI))
   \<and> paramsToBlock (fakeBackend [] False) (eth genesisAPI) (candidate 1 0 0 0 [[1]]) []
       = Inr (fakeBlock 0 1 0 0 [] [[1]])
   \<and> verified genesisAPI (BlockHash (fakeBackend [] False) (fakeBlock 0 1 0 0 [] [[1]])) = None
   \<and> VerifyHeader (fakeBackend [] False) (eth genesisAPI) (header (fakeBlock 0 1 0 0 [] [[1]]))
       = Some (ErrCollaborator ''timestamp too old'')
   \<and> NewL2Block (fakeBackend [] False) (candidate 1 0 0 0 [[1]]) [] genesisAPI
       = (Some (ErrCollaborator ''timestamp too old''),
          genesisAPI\<lparr>calls := [CallVerifyHeader 1000000]\<rparr>)
   \<and> ValidateL2Block (fakeBackend [] False) (candidate 1 0 0 0 [[1]]) genesisAPI
       = (Inr \<lparr>Success = False\<rparr>, genesisAPI\<lparr>calls := [CallVerifyHeader 1000000]\<rparr>)
   \<and> ProcessBlock (fakeBackend [] True) (eth genesisAPI) (fakeBlock 0 1 5 0 [] [[1]])
        (header (CurrentBlock (fakeBackend [] True) (eth genesisAPI))) = Inr (3, 4, 5)
   \<and> fst (WriteStateAndSetHead (fakeBackend [] True) (eth genesisAPI)
        (fakeBlock 0 1 5 0 [] [[1]]) 4 3 5) = Some (ErrCollaborator ''disk full'')
   \<and> fst (NewL2Block (fakeBackend [] True) (candidate 1 0 5 0 [[1]]) [] genesisAPI)
       = Some (ErrCollaborator ''disk full'')"
proof -
  let ?be = "fakeBackend [] False"
  let ?p = "candidate 1 0 0 0 [[1]]"
  let ?blk = "fakeBlock 0 1 0 0 [] [[1]]"
  let ?e = "ErrCollaborator ''timestamp too old''"
  have num: "ExecutableL2Data.Number ?p = NumberU64 (CurrentBlock ?be (eth genesisAPI)) + 1"
    by (simp add: fake_defs api_defs)
  have par: "ExecutableL2Data.ParentHash ?p = BlockHash ?be (CurrentBlock ?be (eth genesisAPI))"
    by (simp add: fake_defs api_defs)
  have mat: "paramsToBlock ?be (eth genesisAPI) ?p [] = Inr ?blk"
    by (simp add: fake_defs api_defs)
  have miss: "verified genesisAPI (BlockHash ?be ?blk) = None"
    by (simp add: fake_defs)
  have vh: "VerifyHeader ?be (eth genesisAPI) (header ?blk) = Some ?e"
    by (simp add: fake_defs)
  have vb: "fst (VerifyBlock ?be ?blk genesisAPI) \<noteq> None"
    using vh by (simp add: VerifyBlock_fst)
  have st: "snd (VerifyBlock ?be ?blk genesisAPI) = genesisAPI\<lparr>calls := [CallVerifyHeader 1000000]\<rparr>"
    by (simp add: VerifyBlock_snd) (simp add: fake_defs api_defs)
  note inst = NewL2Block_miss_propagates_failures [OF num par mat miss, of ?e]
  from inst vh have n: "NewL2Block ?be ?p [] genesisAPI = (Some ?e, snd (VerifyBlock ?be ?blk genesisAPI))"
    by blast
  from inst vb have v: "ValidateL2Block ?be ?p genesisAPI
      = (Inr \<lparr>Success = False\<rparr>, snd (VerifyBlock ?be ?blk genesisAPI))"
    by blast
  let ?be' = "fakeBackend [] True"
  let ?p' = "candidate 1 0 5 0 [[1]]"
  let ?blk' = "fakeBlock 0 1 5 0 [] [[1]]"
  let ?e' = "ErrCollaborator ''disk full''"
  have num': "ExecutableL2Data.Number ?p' = NumberU64 (CurrentBlock ?be' (eth genesisAPI)) + 1"
    by (simp add: fake_defs api_defs)
  have par': "ExecutableL2Data.ParentHash ?p'
                = BlockHash ?be' (CurrentBlock ?be' (eth genesisAPI))"
    by (simp add: fake_defs api_defs)
  have mat': "paramsToBlock ?be' (eth genesisAPI) ?p' [] = Inr ?blk'"
    by (simp add: fake_defs api_defs)
  have miss': "verified genesisAPI (BlockHash ?be' ?blk') = None"
    by (simp add: fake_defs)
  have ok: "fst (VerifyBlock ?be' ?blk' genesisAPI) = None"
    by (simp add: VerifyBlock_fst) (simp add: fake_defs)
  have ex: "ProcessBlock ?be' (eth genesisAPI) ?blk'
              (header (CurrentBlock ?be' (eth genesisAPI))) = Inr (3, 4, 5)"
    by (simp add: fake_defs)
  have wr: "fst (WriteStateAndSetHead ?be' (eth genesisAPI) ?blk' 4 3 5) = Some ?e'"
    by (simp add: fake_defs)
  from NewL2Block_miss_propagates_failures [OF num' par' mat' miss', of ?e' 3 4 5] ok ex wr
  have n': "fst (NewL2Block ?be' ?p' [] genesisAPI) = Some ?e'"
    by blast
  from num par mat miss vh n v ex wr n' show ?thesis unfolding st by blast
qed

section \<open>The verified-result cache\<close>

text \<open>
  Claim C3, as amended. For every descriptor that passes the two linearity checks and
  whose materialized block's content hash has an entry in the cache, \<^verbatim>\<open>ValidateL2Block\<close>
  returns \<open>Success = True\<close> and the coordinator exactly as it was, so without a call of
  the engine verification, the body validator or the executor (first conjunct). Once
  \<^verbatim>\<open>ValidateL2Block\<close> has returned \<open>Success = True\<close> for a descriptor, having invoked
  the executor at most once, it returns \<open>Success = True\<close> for the same descriptor without
  any collaborator call in every later state with the same chain whose cache has kept
  the entries (second conjunct).
\<close>

theorem cached_block_validates_without_execution:
  "(ExecutableL2Data.Number params = NumberU64 (CurrentBlock be (eth api)) + 1 \<and>
    ExecutableL2Data.ParentHash params = BlockHash be (CurrentBlock be (eth api)) \<and>
    paramsToBlock be (eth api) params [] = Inr blk \<and>
    verified api (BlockHash be blk) \<noteq> None
    \<longrightarrow> ValidateL2Block be params api = (Inr \<lparr>Success = True\<rparr>, api))
   \<and>
   (ValidateL2Block be params api = (Inr \<lparr>Success = True\<rparr>, api1)
    \<longrightarrow> executions (calls api1) \<le> Suc (executions (calls api)) \<and>
        (eth api2 = eth api1 \<and> dom (verified api1) \<subseteq> dom (verified api2)
         \<longrightarrow> ValidateL2Block be params api2 = (Inr \<lparr>Success = True\<rparr>, api2)))"
proof (intro conjI impI)
  assume "ExecutableL2Data.Number params = NumberU64 (CurrentBlock be (eth api)) + 1 \<and>
    ExecutableL2Data.ParentHash params = BlockHash be (CurrentBlock be (eth api)) \<and>
    paramsToBlock be (eth api) params [] = Inr blk \<and>
    verified api (BlockHash be blk) \<noteq> None"
  then show "ValidateL2Block be params api = (Inr \<lparr>Success = True\<rparr>, api)"
    by (auto intro: ValidateL2Block_hit_eq)
next
  assume ok: "ValidateL2Block be params api = (Inr \<lparr>Success = True\<rparr>, api1)"
  have num: "ExecutableL2Data.Number params = NumberU64 (CurrentBlock be (eth api)) + 1"
  proof (rule ccontr)
    assume "\<not> ?thesis"
    with ok show False by (simp add: ValidateL2Block_def Let_def)
  qed
  have par: "ExecutableL2Data.ParentHash params = BlockHash be (CurrentBlock be (eth api))"
  proof (rule ccontr)
    assume "\<not> ?thesis"
    with ok num show False by (simp add: ValidateL2Block_def Let_def)
  qed
  obtain b where mat: "paramsToBlock be (eth api) params [] = Inr b"
  proof (cases "paramsToBlock be (eth api) params []")
    case (Inl e)
    with ok num par have False by (simp add: ValidateL2Block_def Let_def)
    then show ?thesis ..
  next
    case (Inr b)
    then show ?thesis by (rule that)
  qed
  let ?h = "BlockHash be b"
  have after: "eth api1 = eth api \<and> ?h \<in> dom (verified api1) \<and>
               executions (calls api1) \<le> Suc (executions (calls api))"
  proof (cases "verified api ?h")
    case (Some bas)
    from ok have "api1 = api"
      unfolding ValidateL2Block_hit_eq [OF num par mat Some] by simp
    with Some show ?thesis by auto
  next
    case None
    from ok have
      "eth api1 = eth api \<and> verified api1 ?h \<noteq> None \<and>
       calls api1 = calls api @ [CallVerifyHeader ?h, CallValidateBody ?h, CallProcessBlock ?h]"
      unfolding ValidateL2Block_miss_eq [OF num par mat None]
      by (auto simp add: Let_def split: option.splits sum.splits)
    then show ?thesis by (auto simp add: executions_append)
  qed
  from after show "executions (calls api1) \<le> Suc (executions (calls api))" by simp
  assume later: "eth api2 = eth api1 \<and> dom (verified api1) \<subseteq> dom (verified api2)"
  with after have e: "eth api2 = eth api" and "?h \<in> dom (verified api2)" by auto
  then obtain bas where hit: "verified api2 ?h = Some bas" by blast
  show "ValidateL2Block be params api2 = (Inr \<lparr>Success = True\<rparr>, api2)"
    by (rule ValidateL2Block_hit_eq [where blk = b and bas = bas])
       (simp_all add: e num par mat hit)
qed

theorem cached_block_validates_without_execution_witness:
  "ExecutableL2Data.Number (candidate 1 0 5 0 [[1]])
       = NumberU64 (CurrentBlock (fakeBackend [] False) (eth validatedA)) + 1
   \<and> ExecutableL2Data.ParentHash (candidate 1 0 5 0 [[1]])
       = BlockHash (fakeBackend [] False) (CurrentBlock (fakeBackend [] False) (eth validatedA))
   \<and> paramsToBlock (fakeBackend [] False) (eth validatedA) (candidate 1 0 5 0 [[1]]) []
       = Inr (fakeBlock 0 1 5 0 [] [[1]])
   \<and> verified validatedA (BlockHash (fakeBackend [] False) (fakeBlock 0 1 5 0 [] [[1]]))
       \<noteq> None
   \<and> ValidateL2Block (fakeBackend [] False) (candidate 1 0 5 0 [[1]]) genesisAPI
       = (Inr \<lparr>Success = True\<rparr>, validatedA)
   \<and> ValidateL2Block (fakeBackend [] False) (candidate 1 0 5 0 [[1]]) validatedA
       = (Inr \<lparr>Success = True\<rparr>, validatedA)
   \<and> executions (calls genesisAPI) = 0
   \<and> executions (calls validatedA) = 1"
proof -
  let ?be = "fakeBackend [] False"
  let ?p = "candidate 1 0 5 0 [[1]]"
  let ?blk = "fakeBlock 0 1 5 0 [] [[1]]"
  have num: "ExecutableL2Data.Number ?p = NumberU64 (CurrentBlock ?be (eth validatedA)) + 1"
    by (simp add: validatedA_state) (simp add: fake_defs api_defs)
  have par: "ExecutableL2Data.ParentHash ?p
               = BlockHash ?be (CurrentBlock ?be (eth validatedA))"
    by (simp add: validatedA_state) (simp add: fake_defs api_defs)
  have mat: "paramsToBlock ?be (eth validatedA) ?p [] = Inr ?blk"
    by (simp add: validatedA_state) (simp add: fake_defs api_defs)
  have hit: "verified validatedA (BlockHash ?be ?blk) \<noteq> None"
    by (simp add: validatedA_state) (simp add: fake_defs api_defs)
  have first: "ValidateL2Block ?be ?p genesisAPI = (Inr \<lparr>Success = True\<rparr>, validatedA)"
    by (simp add: validatedA_eq validatedA_state)
  from num par mat hit
    cached_block_validates_without_execution [of ?p ?be validatedA ?blk]
  have "ValidateL2Block ?be ?p validatedA = (Inr \<lparr>Success = True\<rparr>, validatedA)"
    by blast
  have same: "eth validatedA = eth validatedA \<and>
              dom (verified validatedA) \<subseteq> dom (verified validatedA)"
    by simp
  from first same
    cached_block_validates_without_execution [of ?p ?be genesisAPI ?blk validatedA validatedA]
  have again: "ValidateL2Block ?be ?p validatedA = (Inr \<lparr>Success = True\<rparr>, validatedA)"
    and "executions (calls validatedA) \<le> Suc (executions (calls genesisAPI))"
    by blast+
  have e0: "executions (calls genesisAPI) = 0"
    by (simp add: fake_defs)
  have e1: "executions (calls validatedA) = 1"
    by (simp add: validatedA_state)
  from num par mat hit first again e0 e1 show ?thesis by blast
qed

text \<open>
  The claim as first stated fails in two ways. A cache entry does not make a descriptor
  valid when the head has moved: after candidate A was validated and candidate B
  committed on the miss path, A's block is still in the cache, and validating A is
  answered with the discontinuity error. And two validations of one descriptor execute
  it twice when the executor rejects it, since a negative outcome is not cached.
\<close>

theorem cached_block_validates_counterexample:
  "fst (ValidateL2Block (fakeBackend [] False) (candidate 1 0 5 0 [[1]]) genesisAPI)
     = Inr \<lparr>Success = True\<rparr>
   \<and> fst (NewL2Block (fakeBackend [] False) (candidate 1 0 6 0 [[1]]) [] validatedA) = None
   \<and> paramsToBlock (fakeBackend [] False) (eth committedB) (candidate 1 0 5 0 [[1]]) []
       = Inr (fakeBlock 0 1 5 0 [] [[1]])
   \<and> verified committedB (BlockHash (fakeBackend [] False) (fakeBlock 0 1 5 0 [] [[1]]))
       = Some \<lparr>block = fakeBlock 0 1 5 0 [] [[1]], state = 3, receipts = 4, procTime = 5\<rparr>
   \<and> ValidateL2Block (fakeBackend [] False) (candidate 1 0 5 0 [[1]]) committedB
       = (Inl (ErrDiscontinuous 1 2), committedB)
   \<and> fst (ValidateL2Block (fakeBackend [] False) (candidate 1 0 5 1 [[1]]) genesisAPI)
       = Inr \<lparr>Success = False\<rparr>
   \<and> executions (calls (snd (ValidateL2Block (fakeBackend [] False) (candidate 1 0 5 1 [[1]])
        (snd (ValidateL2Block (fakeBackend [] False) (candidate 1 0 5 1 [[1]]) genesisAPI)))))
       = 2"
proof -
  let ?be = "fakeBackend [] False"
  let ?C = "candidate 1 0 5 1 [[1]]"
  have one: "ValidateL2Block ?be ?C genesisAPI =
     (Inr \<lparr>Success = False\<rparr>,
      \<lparr>eth = genesis, verified = Map.empty,
       calls = [CallVerifyHeader 1005000, CallValidateBody 1005000, CallProcessBlock 1005000]\<rparr>)"
    by (simp add: fake_defs api_defs)
  have two: "ValidateL2Block ?be ?C
      \<lparr>eth = genesis, verified = Map.empty,
       calls = [CallVerifyHeader 1005000, CallValidateBody 1005000, CallProcessBlock 1005000]\<rparr> =
     (Inr \<lparr>Success = False\<rparr>,
      \<lparr>eth = genesis, verified = Map.empty,
       calls = [CallVerifyHeader 1005000, CallValidateBody 1005000, CallProcessBlock 1005000,
                CallVerifyHeader 1005000, CallValidateBody 1005000, CallProcessBlock 1005000]\<rparr>)"
    by (simp add: fake_defs api_defs)
  have stale: "ValidateL2Block ?be (candidate 1 0 5 0 [[1]]) committedB
       = (Inl (ErrDiscontinuous 1 2), committedB)"
    unfolding committedB_state by (simp add: fake_defs api_defs)
  have mat: "paramsToBlock ?be (eth committedB) (candidate 1 0 5 0 [[1]]) []
       = Inr (fakeBlock 0 1 5 0 [] [[1]])"
    unfolding committedB_state by (simp add: fake_defs api_defs)
  have c: "verified committedB (BlockHash ?be (fakeBlock 0 1 5 0 [] [[1]]))
       = Some \<lparr>block = fakeBlock 0 1 5 0 [] [[1]], state = 3, receipts = 4, procTime = 5\<rparr>"
    unfolding committedB_state by (simp add: fake_defs api_defs)
  have twice: "executions (calls (snd (ValidateL2Block ?be ?C
                  (snd (ValidateL2Block ?be ?C genesisAPI))))) = 2"
    by (simp add: one) (simp add: two)
  have f: "fst (ValidateL2Block ?be ?C genesisAPI) = Inr \<lparr>Success = False\<rparr>"
    by (simp add: one)
  have a: "fst (ValidateL2Block ?be (candidate 1 0 5 0 [[1]]) genesisAPI)
             = Inr \<lparr>Success = True\<rparr>"
    by (simp add: validatedA_eq)
  have b: "fst (NewL2Block ?be (candidate 1 0 6 0 [[1]]) [] validatedA) = None"
    by (simp add: committedB_eq)
  from a b mat c stale f twice show ?thesis by blast
qed

text \<open>The two paths of \<^verbatim>\<open>NewL2Block\<close> treat the cache differently: a successful commit
  from the cache empties it, a commit on the miss path returns it as it was.\<close>

lemma NewL2Block_hit_clears_cache:
  assumes "ExecutableL2Data.Number params = NumberU64 (CurrentBlock be (eth api)) + 1"
    and "ExecutableL2Data.ParentHash params = BlockHash be (CurrentBlock be (eth api))"
    and "paramsToBlock be (eth api) params bls = Inr blk"
    and "verified api (BlockHash be blk) = Some bas"
    and "fst (NewL2Block be params bls api) = None"
  shows "verified (snd (NewL2Block be params bls api)) = Map.empty"
  using assms(5) unfolding NewL2Block_hit_eq [OF assms(1-4)]
  by (simp add: Let_def split: if_splits)

lemma NewL2Block_miss_keeps_cache:
  assumes "ExecutableL2Data.Number params = NumberU64 (CurrentBlock be (eth api)) + 1"
    and "ExecutableL2Data.ParentHash params = BlockHash be (CurrentBlock be (eth api))"
    and "paramsToBlock be (eth api) params bls = Inr blk"
    and "verified api (BlockHash be blk) = None"
  shows "verified (snd (NewL2Block be params bls api)) = verified api"
  unfolding NewL2Block_miss_eq [OF assms]
  by (simp add: Let_def split: option.splits sum.splits prod.splits)

text \<open>
  Claim C1 says that every successful commit discards the whole cache. The miss path
  does not: on a chain with head \<open>genesis\<close>, candidate A (timestamp 5) is validated and
  cached under hash 1005000; candidate B (timestamp 6, hash 1006000) is then committed by
  \<^verbatim>\<open>NewL2Block\<close> on the miss path, which returns no error and moves the head to B; the
  cache still holds A's entry.
\<close>

theorem NewL2Block_miss_path_keeps_cache:
  "fst (ValidateL2Block (fakeBackend [] False) (candidate 1 0 5 0 [[1]]) genesisAPI)
     = Inr \<lparr>Success = True\<rparr>
   \<and> dom (verified validatedA) = {1005000}
   \<and> fst (NewL2Block (fakeBackend [] False) (candidate 1 0 6 0 [[1]]) [] validatedA) = None
   \<and> CurrentBlock (fakeBackend [] False)
        (eth (snd (NewL2Block (fakeBackend [] False) (candidate 1 0 6 0 [[1]]) [] validatedA)))
       = fakeBlock 0 1 6 0 [] [[1]]
   \<and> calls (snd (NewL2Block (fakeBackend [] False) (candidate 1 0 6 0 [[1]]) [] validatedA))
       = calls validatedA @ [CallVerifyHeader 1006000, CallProcessBlock 1006000,
                             CallWriteStateAndSetHead 1006000]
   \<and> dom (verified
        (snd (NewL2Block (fakeBackend [] False) (candidate 1 0 6 0 [[1]]) [] validatedA)))
       = {1005000}
   \<and> verified (snd (NewL2Block (fakeBackend [] False) (candidate 1 0 6 0 [[1]]) [] validatedA))
       \<noteq> Map.empty"
proof -
  have v: "validatedA = snd (ValidateL2Block (fakeBackend [] False) (candidate 1 0 5 0 [[1]]) genesisAPI)"
    by (simp add: validatedA_def)
  show ?thesis
    unfolding committedB_eq
    unfolding v validatedA_eq
    by (simp add: fakeBackend_def fun_eq_iff exI [of _ 1005000])
qed

text \<open>
  Committing what was assembled. The descriptor that \<^verbatim>\<open>AssembleL2Block\<close> returns
  materializes to the sealed block itself under conditions on the collaborators alone:
  the codec round-trips the block's transactions, the transaction root and the bloom
  round-trip, the number fits \<^verbatim>\<open>int64\<close>, the aggregate-signature data supplied is the
  sealed header's, and the engine's \<^verbatim>\<open>Prepare\<close> hook, run on the header literal of
  \<^verbatim>\<open>paramsToBlock\<close> (nine fields of the sealed header, with no extra bytes), gives the
  sealed header up to the four fields written after it. Every field of the descriptor
  is used.
\<close>

lemma assembled_descriptor_rematerializes:
  assumes asm: "AssembleL2Block be now elapsed req api = (Inr (Some D), api1)"
    and dec: "decodeLoop be 0 (AssembleL2BlockParams.Transactions req) [] = Inr txs"
    and seal: "GetSealingBlockAndState be (eth api) (HeaderHash be (CurrentHeader be (eth api)))
                 now txs = Inr (blk, st, rcpts)"
    and sig: "Header.BLSData (header blk) = bls"
    and fits: "sint (NumberU64 blk) = Header.Number (header blk)"
    and codec: "decodeTransactions be (encodeTransactions be (transactions blk))
                  = Inr (transactions blk)"
    and root: "DeriveSha be (transactions blk) = Header.TxHash (header blk)"
    and bloom: "BytesToBloom be (BloomBytes be (Header.Bloom (header blk)))
                  = Header.Bloom (header blk)"
    and prep: "Prepare be (eth api)
                 \<lparr>Header.ParentHash = Header.ParentHash (header blk),
                  UncleHash = 0,
                  Coinbase = Header.Coinbase (header blk),
                  Root = 0, TxHash = 0, ReceiptHash = 0, Bloom = 0, Difficulty = None,
                  Header.Number = Header.Number (header blk),
                  Header.GasLimit = Header.GasLimit (header blk),
                  Header.GasUsed = Header.GasUsed (header blk),
                  Time = Header.Time (header blk),
                  Header.Extra = [],
                  MixDigest = 0, Nonce = 0,
                  Header.BaseFee = Header.BaseFee (header blk),
                  BLSData = bls\<rparr>
               = (header blk)\<lparr>TxHash := t, ReceiptHash := rh, Root := r, Bloom := bl\<rparr>"
  shows "paramsToBlock be (eth api1) D bls = Inr blk"
proof -
  have e: "eth api1 = eth api"
    by (simp add: AssembleL2Block_success(1) [OF asm dec seal])
  have "paramsToBlock be (eth api) D bls = Inr blk"
    unfolding AssembleL2Block_success(5) [OF asm dec seal] paramsToBlock_def
    by (simp add: Let_def fits prep codec root bloom)
  with e show ?thesis by simp
qed

text \<open>
  If moreover the miner sealed the block on the current head and the store writes it
  without error, \<^verbatim>\<open>NewL2Block\<close> with that descriptor takes the cache-hit path: its only
  collaborator call is \<^verbatim>\<open>WriteStateAndSetHead\<close>, for the sealed block, with the state,
  receipts and duration cached at assembly; the executor is not invoked; no error is
  returned; the chain is the one the store left; and the cache is empty.
\<close>

lemma assembled_block_committed_from_cache:
  assumes asm: "AssembleL2Block be now elapsed req api = (Inr (Some D), api1)"
    and dec: "decodeLoop be 0 (AssembleL2BlockParams.Transactions req) [] = Inr txs"
    and seal: "GetSealingBlockAndState be (eth api) (HeaderHash be (CurrentHeader be (eth api)))
                 now txs = Inr (blk, st, rcpts)"
    and sig: "Header.BLSData (header blk) = bls"
    and fits: "sint (NumberU64 blk) = Header.Number (header blk)"
    and codec: "decodeTransactions be (encodeTransactions be (transactions blk))
                  = Inr (transactions blk)"
    and root: "DeriveSha be (transactions blk) = Header.TxHash (header blk)"
    and bloom: "BytesToBloom be (BloomBytes be (Header.Bloom (header blk)))
                  = Header.Bloom (header blk)"
    and prep: "Prepare be (eth api)
                 \<lparr>Header.ParentHash = Header.ParentHash (header blk),
                  UncleHash = 0,
                  Coinbase = Header.Coinbase (header blk),
                  Root = 0, TxHash = 0, ReceiptHash = 0, Bloom = 0, Difficulty = None,
                  Header.Number = Header.Number (header blk),
                  Header.GasLimit = Header.GasLimit (header blk),
                  Header.GasUsed = Header.GasUsed (header blk),
                  Time = Header.Time (header blk),
                  Header.Extra = [],
                  MixDigest = 0, Nonce = 0,
                  Header.BaseFee = Header.BaseFee (header blk),
                  BLSData = bls\<rparr>
               = (header blk)\<lparr>TxHash := t, ReceiptHash := rh, Root := r, Bloom := bl\<rparr>"
    and onhead: "Header.ParentHash (header blk) = BlockHash be (CurrentBlock be (eth api))"
    and succ: "NumberU64 blk = NumberU64 (CurrentBlock be (eth api)) + 1"
    and store: "WriteStateAndSetHead be (eth api) blk rcpts st elapsed = (None, chain')"
  shows "NewL2Block be D bls api1 =
           (None, \<lparr>eth = chain', verified = Map.empty,
                   calls = calls api1 @ [CallWriteStateAndSetHead (BlockHash be blk)]\<rparr>)
       \<and> executions (calls (snd (NewL2Block be D bls api1))) = executions (calls api1)"
proof -
  note facts = AssembleL2Block_success [OF asm dec seal]
  have e: "eth api1 = eth api"
    by (simp add: facts(1))
  have num: "ExecutableL2Data.Number D = NumberU64 (CurrentBlock be (eth api1)) + 1"
    by (simp add: facts(4) e succ)
  have par: "ExecutableL2Data.ParentHash D = BlockHash be (CurrentBlock be (eth api1))"
    by (simp add: facts(3) e onhead)
  have mat: "paramsToBlock be (eth api1) D bls = Inr blk"
    by (rule assembled_descriptor_rematerializes
              [OF asm dec seal sig fits codec root bloom prep])
  have hit: "verified api1 (BlockHash be blk)
               = Some \<lparr>block = blk, state = st, receipts = rcpts, procTime = elapsed\<rparr>"
    by (simp add: facts(1))
  have r: "NewL2Block be D bls api1 =
           (None, \<lparr>eth = chain', verified = Map.empty,
                   calls = calls api1 @ [CallWriteStateAndSetHead (BlockHash be blk)]\<rparr>)"
    unfolding NewL2Block_hit_eq [OF num par mat hit]
    by (simp add: store e Let_def)
  show ?thesis unfolding r by (simp add: executions_append)
qed

text \<open>The test double whose miner adds no extra data meets these conditions, and the
  commit of the assembled block is served from the cache.\<close>

lemma assembled_block_committed_from_cache_example:
  "NewL2Block (fakeBackend [] False) (candidate 1 0 5 0 [[1]]) [] (assembled [] False)
     = (None, \<lparr>eth = fakeBlock 0 1 5 0 [] [[1]], verified = Map.empty,
               calls = [CallGetSealingBlockAndState 0, CallWriteStateAndSetHead 1005000]\<rparr>)"
proof -
  let ?be = "fakeBackend [] False"
  let ?D = "candidate 1 0 5 0 [[1]]"
  let ?blk = "fakeBlock 0 1 5 0 [] [[1]]"
  let ?api1 = "assembled [] False"
  have asm: "AssembleL2Block ?be 5 9 (request 1 [[1]]) genesisAPI = (Inr (Some ?D), ?api1)"
    by (simp add: assembled_eq assembled_state)
  have dec: "decodeLoop ?be 0 (AssembleL2BlockParams.Transactions (request 1 [[1]])) []
               = Inr [[1]]"
    by (simp add: fake_defs)
  have seal: "GetSealingBlockAndState ?be (eth genesisAPI)
                (HeaderHash ?be (CurrentHeader ?be (eth genesisAPI))) 5 [[1]]
                = Inr (?blk, 1, 2)"
    by (simp add: fake_defs)
  have sig: "Header.BLSData (header ?blk) = []"
    by (simp add: fake_defs)
  have fits: "sint (NumberU64 ?blk) = Header.Number (header ?blk)"
    by (simp add: fake_defs api_defs)
  have codec: "decodeTransactions ?be (encodeTransactions ?be (transactions ?blk))
                 = Inr (transactions ?blk)"
    by (simp add: fake_defs)
  have root: "DeriveSha ?be (transactions ?blk) = Header.TxHash (header ?blk)"
    by (simp add: fake_defs)
  have bloom: "BytesToBloom ?be (BloomBytes ?be (Header.Bloom (header ?blk)))
                 = Header.Bloom (header ?blk)"
    by (simp add: fake_defs)
  have prep: "Prepare ?be (eth genesisAPI)
                 \<lparr>Header.ParentHash = Header.ParentHash (header ?blk),
                  UncleHash = 0,
                  Coinbase = Header.Coinbase (header ?blk),
                  Root = 0, TxHash = 0, ReceiptHash = 0, Bloom = 0, Difficulty = None,
                  Header.Number = Header.Number (header ?blk),
                  Header.GasLimit = Header.GasLimit (header ?blk),
                  Header.GasUsed = Header.GasUsed (header ?blk),
                  Time = Header.Time (header ?blk),
                  Header.Extra = [],
                  MixDigest = 0, Nonce = 0,
                  Header.BaseFee = Header.BaseFee (header ?blk),
                  BLSData = []\<rparr>
               = (header ?blk)\<lparr>TxHash := 0, ReceiptHash := 0, Root := 0, Bloom := 0\<rparr>"
    by (simp add: fake_defs)
  have onhead: "Header.ParentHash (header ?blk) = BlockHash ?be (CurrentBlock ?be (eth genesisAPI))"
    by (simp add: fake_defs api_defs)
  have succ: "NumberU64 ?blk = NumberU64 (CurrentBlock ?be (eth genesisAPI)) + 1"
    by (simp add: fake_defs api_defs)
  have store: "WriteStateAndSetHead ?be (eth genesisAPI) ?blk 2 1 9 = (None, ?blk)"
    by (simp add: fake_defs)
  have h: "BlockHash ?be ?blk = 1005000"
    by (simp add: fake_defs api_defs)
  have c: "calls ?api1 = [CallGetSealingBlockAndState 0]"
    by (simp add: assembled_state)
  from assembled_block_committed_from_cache
         [OF asm dec seal sig fits codec root bloom prep onhead succ store]
  show ?thesis unfolding h c by simp
qed

text \<open>
  Claim C2 says that committing the descriptor of a successful assembly never invokes
  the re-execution path. The descriptor built in lines 89-102 carries every field that
  \<^verbatim>\<open>paramsToBlock\<close> reads except the extra bytes, so the claim fails as soon as the sealed
  header has some: with a miner configured to add the extra byte 103 (and an engine
  that leaves extra bytes alone), block 1 is assembled and cached under hash 1005001 with
  extra bytes \<open>[103]\<close>; the descriptor returned has none and materializes to hash 1005000;
  \<^verbatim>\<open>NewL2Block\<close> with that descriptor misses the cache, calls the engine verification and
  the executor, and commits; the assembled entry stays in the cache.
\<close>

theorem assembled_block_recommit_reexecutes:
  "AssembleL2Block (fakeBackend [103] False) 5 9 (request 1 [[1]]) genesisAPI
     = (Inr (Some (candidate 1 0 5 0 [[1]])), assembled [103] False)
   \<and> verified (assembled [103] False) 1005001
       = Some \<lparr>block = fakeBlock 0 1 5 0 [103] [[1]], state = 1, receipts = 2, procTime = 9\<rparr>
   \<and> Header.Extra (header (fakeBlock 0 1 5 0 [103] [[1]])) = [103]
   \<and> ExecutableL2Data.Extra (candidate 1 0 5 0 [[1]]) = []
   \<and> paramsToBlock (fakeBackend [103] False) (eth (assembled [103] False))
        (candidate 1 0 5 0 [[1]]) [] = Inr (fakeBlock 0 1 5 0 [] [[1]])
   \<and> BlockHash (fakeBackend [103] False) (fakeBlock 0 1 5 0 [] [[1]]) = 1005000
   \<and> NewL2Block (fakeBackend [103] False) (candidate 1 0 5 0 [[1]]) [] (assembled [103] False)
     = (None,
        \<lparr>eth = fakeBlock 0 1 5 0 [] [[1]],
         verified = [1005001 \<mapsto> \<lparr>block = fakeBlock 0 1 5 0 [103] [[1]], state = 1,
                                  receipts = 2, procTime = 9\<rparr>],
         calls = [CallGetSealingBlockAndState 0, CallVerifyHeader 1005000,
                  CallProcessBlock 1005000, CallWriteStateAndSetHead 1005000]\<rparr>)
   \<and> executions (calls (snd (NewL2Block (fakeBackend [103] False) (candidate 1 0 5 0 [[1]]) []
        (assembled [103] False)))) = 1"
proof -
  let ?be = "fakeBackend [103] False"
  let ?D = "candidate 1 0 5 0 [[1]]"
  have asm: "AssembleL2Block ?be 5 9 (request 1 [[1]]) genesisAPI
               = (Inr (Some ?D), assembled [103] False)"
    by (simp add: assembled_eq assembled_state)
  have key: "BlockHash ?be (fakeBlock 0 1 5 0 [103] [[1]]) = 1005001"
    by (simp add: fake_defs api_defs)
  have cached: "verified (assembled [103] False) 1005001
       = Some \<lparr>block = fakeBlock 0 1 5 0 [103] [[1]], state = 1, receipts = 2, procTime = 9\<rparr>"
    unfolding assembled_state key by simp
  have ex: "Header.Extra (header (fakeBlock 0 1 5 0 [103] [[1]])) = [103]"
    by (simp add: fake_defs)
  have dx: "ExecutableL2Data.Extra ?D = []"
    by (simp add: fake_defs)
  have mat: "paramsToBlock ?be (eth (assembled [103] False)) ?D []
               = Inr (fakeBlock 0 1 5 0 [] [[1]])"
    by (simp add: assembled_state) (simp add: fake_defs api_defs)
  have h: "BlockHash ?be (fakeBlock 0 1 5 0 [] [[1]]) = 1005000"
    by (simp add: fake_defs api_defs)
  have commit: "NewL2Block ?be ?D [] (assembled [103] False)
     = (None,
        \<lparr>eth = fakeBlock 0 1 5 0 [] [[1]],
         verified = [1005001 \<mapsto> \<lparr>block = fakeBlock 0 1 5 0 [103] [[1]], state = 1,
                                  receipts = 2, procTime = 9\<rparr>],
         calls = [CallGetSealingBlockAndState 0, CallVerifyHeader 1005000,
                  CallProcessBlock 1005000, CallWriteStateAndSetHead 1005000]\<rparr>)"
    unfolding assembled_state by (simp add: fake_defs api_defs)
  have n: "executions (calls (snd (NewL2Block ?be ?D [] (assembled [103] False)))) = 1"
    by (simp add: commit)
  from asm cached ex dx mat h commit n show ?thesis by blast
qed

text \<open>
  Claim C10, as amended. The descriptor returned by a successful \<^verbatim>\<open>AssembleL2Block\<close> has
  empty extra bytes, whatever the extra data of the sealed header, which is cached under
  its own hash. If the sealed header carries extra bytes and the engine's \<^verbatim>\<open>Prepare\<close>
  hook leaves the extra bytes of a header as they are, the header materialized from the
  descriptor has empty extra bytes and differs from the sealed header; its content hash
  then differs from the cache key, unless the header hash collides on the two headers.
\<close>

theorem assembled_descriptor_drops_extra:
  assumes asm: "AssembleL2Block be now elapsed req api = (Inr (Some D), api1)"
    and dec: "decodeLoop be 0 (AssembleL2BlockParams.Transactions req) [] = Inr txs"
    and seal: "GetSealingBlockAndState be (eth api) (HeaderHash be (CurrentHeader be (eth api)))
                 now txs = Inr (blk, st, rcpts)"
  shows "ExecutableL2Data.Extra D = []
       \<and> verified api1 (BlockHash be blk)
           = Some \<lparr>block = blk, state = st, receipts = rcpts, procTime = elapsed\<rparr>
       \<and> (Header.Extra (header blk) \<noteq> [] \<and>
          paramsToBlock be (eth api1) D bls = Inr blk' \<and>
          (\<forall>c h. Header.Extra (Prepare be c h) = Header.Extra h)
          \<longrightarrow> Header.Extra (header blk') = [] \<and> header blk' \<noteq> header blk \<and>
              ((HeaderHash be (header blk') = HeaderHash be (header blk)
                  \<longrightarrow> header blk' = header blk)
               \<longrightarrow> BlockHash be blk' \<noteq> BlockHash be blk))"
proof (intro conjI impI)
  show x: "ExecutableL2Data.Extra D = []"
    by (rule AssembleL2Block_success(2) [OF asm dec seal])
  show "verified api1 (BlockHash be blk)
           = Some \<lparr>block = blk, state = st, receipts = rcpts, procTime = elapsed\<rparr>"
    by (simp add: AssembleL2Block_success(1) [OF asm dec seal])
  assume h: "Header.Extra (header blk) \<noteq> [] \<and>
          paramsToBlock be (eth api1) D bls = Inr blk' \<and>
          (\<forall>c h. Header.Extra (Prepare be c h) = Header.Extra h)"
  then show e: "Header.Extra (header blk') = []"
    using paramsToBlock_Extra [of be "eth api1" D bls blk'] x by simp
  with h show d: "header blk' \<noteq> header blk" by auto
  assume "HeaderHash be (header blk') = HeaderHash be (header blk)
                  \<longrightarrow> header blk' = header blk"
  with d show "BlockHash be blk' \<noteq> BlockHash be blk" by (auto simp add: BlockHash_def)
qed

theorem assembled_descriptor_drops_extra_witness:
  "AssembleL2Block (fakeBackend [103] False) 5 9 (request 1 [[1]]) genesisAPI
     = (Inr (Some (candidate 1 0 5 0 [[1]])), assembled [103] False)
   \<and> decodeLoop (fakeBackend [103] False) 0
        (AssembleL2BlockParams.Transactions (request 1 [[1]])) [] = Inr [[1]]
   \<and> GetSealingBlockAndState (fakeBackend [103] False) (eth genesisAPI)
        (HeaderHash (fakeBackend [103] False)
           (CurrentHeader (fakeBackend [103] False) (eth genesisAPI)))
        5 [[1]] = Inr (fakeBlock 0 1 5 0 [103] [[1]], 1, 2)
   \<and> Header.Extra (header (fakeBlock 0 1 5 0 [103] [[1]])) \<noteq> []
   \<and> paramsToBlock (fakeBackend [103] False) (eth (assembled [103] False))
        (candidate 1 0 5 0 [[1]]) [] = Inr (fakeBlock 0 1 5 0 [] [[1]])
   \<and> (\<forall>c h. Header.Extra (Prepare (fakeBackend [103] False) c h) = Header.Extra h)
   \<and> HeaderHash (fakeBackend [103] False) (header (fakeBlock 0 1 5 0 [] [[1]])) = 1005000
   \<and> HeaderHash (fakeBackend [103] False) (header (fakeBlock 0 1 5 0 [103] [[1]])) = 1005001
   \<and> ExecutableL2Data.Extra (candidate 1 0 5 0 [[1]]) = []
   \<and> verified (assembled [103] False)
        (BlockHash (fakeBackend [103] False) (fakeBlock 0 1 5 0 [103] [[1]]))
       = Some \<lparr>block = fakeBlock 0 1 5 0 [103] [[1]], state = 1, receipts = 2, procTime = 9\<rparr>
   \<and> BlockHash (fakeBackend [103] False) (fakeBlock 0 1 5 0 [] [[1]])
       \<noteq> BlockHash (fakeBackend [103] False) (fakeBlock 0 1 5 0 [103] [[1]])"
proof -
  let ?be = "fakeBackend [103] False"
  let ?D = "candidate 1 0 5 0 [[1]]"
  let ?blk = "fakeBlock 0 1 5 0 [103] [[1]]"
  let ?blk' = "fakeBlock 0 1 5 0 [] [[1]]"
  let ?api1 = "assembled [103] False"
  have asm: "AssembleL2Block ?be 5 9 (request 1 [[1]]) genesisAPI = (Inr (Some ?D), ?api1)"
    by (simp add: assembled_eq assembled_state)
  have dec: "decodeLoop ?be 0 (AssembleL2BlockParams.Transactions (request 1 [[1]])) []
               = Inr [[1]]"
    by (simp add: fake_defs)
  have seal: "GetSealingBlockAndState ?be (eth genesisAPI)
                (HeaderHash ?be (CurrentHeader ?be (eth genesisAPI))) 5 [[1]]
                = Inr (?blk, 1, 2)"
    by (simp add: fake_defs)
  have ex: "Header.Extra (header ?blk) \<noteq> []"
    by (simp add: fake_defs)
  have mat: "paramsToBlock ?be (eth ?api1) ?D [] = Inr ?blk'"
    by (simp add: assembled_state) (simp add: fake_defs api_defs)
  have prep: "\<forall>c h. Header.Extra (Prepare ?be c h) = Header.Extra h"
    by (simp add: fake_defs)
  have h': "HeaderHash ?be (header ?blk') = 1005000"
    by (simp add: fake_defs)
  have h: "HeaderHash ?be (header ?blk) = 1005001"
    by (simp add: fake_defs)
  have nocoll: "HeaderHash ?be (header ?blk') = HeaderHash ?be (header ?blk)
                  \<longrightarrow> header ?blk' = header ?blk"
    by (simp add: h h')
  note inst = assembled_descriptor_drops_extra [OF asm dec seal, of "[]" ?blk']
  from inst have x: "ExecutableL2Data.Extra ?D = []" by blast
  from inst have c: "verified ?api1 (BlockHash ?be ?blk)
       = Some \<lparr>block = ?blk, state = 1, receipts = 2, procTime = 9\<rparr>" by blast
  from inst ex mat prep nocoll have d: "BlockHash ?be ?blk' \<noteq> BlockHash ?be ?blk" by blast
  from asm dec seal ex mat prep h h' x c d show ?thesis by blast
qed

text \<open>
  The claim as first stated fails for an engine whose \<^verbatim>\<open>Prepare\<close> hook sets the extra
  bytes itself, as clique's does: the sealed header carries the extra byte 103, the
  descriptor carries none, and the block materialized from the descriptor is the sealed
  block again, found in the cache under the same hash.
\<close>

theorem assembled_descriptor_drops_extra_counterexample:
  "fst (AssembleL2Block (fakeBackendFixedExtra [103]) 5 9 (request 1 [[1]]) genesisAPI)
     = Inr (Some (candidate 1 0 5 0 [[1]]))
   \<and> ExecutableL2Data.Extra (candidate 1 0 5 0 [[1]]) = []
   \<and> GetSealingBlockAndState (fakeBackendFixedExtra [103]) (eth genesisAPI)
        (HeaderHash (fakeBackendFixedExtra [103])
           (CurrentHeader (fakeBackendFixedExtra [103]) (eth genesisAPI)))
        5 [[1]] = Inr (fakeBlock 0 1 5 0 [103] [[1]], 1, 2)
   \<and> Header.Extra (header (fakeBlock 0 1 5 0 [103] [[1]])) = [103]
   \<and> verified (snd (AssembleL2Block (fakeBackendFixedExtra [103]) 5 9 (request 1 [[1]])
                       genesisAPI))
        (BlockHash (fakeBackendFixedExtra [103]) (fakeBlock 0 1 5 0 [103] [[1]]))
       = Some \<lparr>block = fakeBlock 0 1 5 0 [103] [[1]], state = 1, receipts = 2, procTime = 9\<rparr>
   \<and> paramsToBlock (fakeBackendFixedExtra [103])
        (eth (snd (AssembleL2Block (fakeBackendFixedExtra [103]) 5 9 (request 1 [[1]])
                     genesisAPI)))
        (candidate 1 0 5 0 [[1]]) []
       = Inr (fakeBlock 0 1 5 0 [103] [[1]])"
  by (simp add: fake_defs api_defs)

end
